theory Spec2Isabelle
  imports Main "HOL-Library.Word" "HOL-Library.Sublist"
begin

section \<open>The caching reverse proxy (package revproxy)\<close>

text \<open>
  A shallow embedding of the request resolver of the caching reverse proxy:
  the \<open>Cache-Control\<close> parser, the cacheability predicates, the target check,
  the request rewriter and \<open>ServeHTTP\<close>.

  Go strings are byte sequences: a \<open>string\<close> here is a list of 8-bit
  characters.  Go's \<open>int\<close> is taken to be 64 bits wide (amd64, arm64), and
  \<open>time.Duration\<close> is an \<open>int64\<close> count of nanoseconds.
\<close>

subsection \<open>Durations\<close>

type_synonym int64 = "64 word"
type_synonym Duration = "64 word"

definition Second :: Duration where
  "Second = 1000000000"

definition Hour :: Duration where
  "Hour = 3600 * Second"

text \<open>Signed comparison of two 64-bit values, as Go compares \<open>int64\<close>.\<close>

definition int64_less :: "int64 \<Rightarrow> int64 \<Rightarrow> bool" where
  "int64_less a b = (sint a < sint b)"

subsection \<open>The standard library functions the parser calls\<close>

text \<open>
  \<open>strings.Split(s, sep)\<close> for a separator of one byte: the substrings between
  the separators, in order; a string with \<open>n\<close> separators gives \<open>n + 1\<close>
  elements, the empty string gives one empty element.
\<close>

fun strings_Split :: "string \<Rightarrow> char \<Rightarrow> string list" where
  "strings_Split [] sep = [[]]"
| "strings_Split (c # cs) sep =
     (if c = sep then [] # strings_Split cs sep
      else (case strings_Split cs sep of
              [] \<Rightarrow> [[c]]
            | x # xs \<Rightarrow> (c # x) # xs))"

text \<open>
  \<open>strings.Cut(s, sep)\<close> for a separator of one byte: the text before and
  after the first separator and \<open>True\<close>, or \<open>(s, "", False)\<close> when \<open>s\<close> has no
  separator.
\<close>

definition strings_Cut :: "string \<Rightarrow> char \<Rightarrow> string \<times> string \<times> bool" where
  "strings_Cut s sep =
     (if sep \<in> set s
      then (takeWhile (\<lambda>c. c \<noteq> sep) s, tl (dropWhile (\<lambda>c. c \<noteq> sep) s), True)
      else (s, [], False))"

text \<open>
  \<open>strings.TrimSpace(s)\<close> removes all leading and trailing white space, as
  defined by Unicode, from the UTF-8 text \<open>s\<close>.  The white space code points
  are U+0009 to U+000D, U+0020, U+0085, U+00A0, U+1680, U+2000 to U+200A,
  U+2028, U+2029, U+202F, U+205F and U+3000; \<open>spaceRunes\<close> lists their UTF-8
  encodings.  A byte sequence that is not a valid encoding decodes to
  U+FFFD, which is not white space, so trimming stops there.
\<close>

definition spaceRunes :: "string list" where
  "spaceRunes =
     [[CHR 0x09], [CHR 0x0A], [CHR 0x0B], [CHR 0x0C], [CHR 0x0D], [CHR 0x20],
      [CHR 0xC2, CHR 0x85], [CHR 0xC2, CHR 0xA0],
      [CHR 0xE1, CHR 0x9A, CHR 0x80],
      [CHR 0xE2, CHR 0x80, CHR 0x80], [CHR 0xE2, CHR 0x80, CHR 0x81],
      [CHR 0xE2, CHR 0x80, CHR 0x82], [CHR 0xE2, CHR 0x80, CHR 0x83],
      [CHR 0xE2, CHR 0x80, CHR 0x84], [CHR 0xE2, CHR 0x80, CHR 0x85],
      [CHR 0xE2, CHR 0x80, CHR 0x86], [CHR 0xE2, CHR 0x80, CHR 0x87],
      [CHR 0xE2, CHR 0x80, CHR 0x88], [CHR 0xE2, CHR 0x80, CHR 0x89],
      [CHR 0xE2, CHR 0x80, CHR 0x8A],
      [CHR 0xE2, CHR 0x80, CHR 0xA8], [CHR 0xE2, CHR 0x80, CHR 0xA9],
      [CHR 0xE2, CHR 0x80, CHR 0xAF],
      [CHR 0xE2, CHR 0x81, CHR 0x9F],
      [CHR 0xE3, CHR 0x80, CHR 0x80]]"

text \<open>The width in bytes of the rune of \<open>ws\<close> that \<open>s\<close> starts with, or 0.\<close>

definition runeWidth :: "string list \<Rightarrow> string \<Rightarrow> nat" where
  "runeWidth ws s = (case find (\<lambda>w. prefix w s) ws of None \<Rightarrow> 0 | Some w \<Rightarrow> length w)"

text \<open>
  \<open>trimLeading ws n s\<close> skips the \<open>n\<close> bytes left of the current rune, then drops
  runes of \<open>ws\<close> from the front of \<open>s\<close> until a byte sequence that is none.
\<close>

fun trimLeading :: "string list \<Rightarrow> nat \<Rightarrow> string \<Rightarrow> string" where
  "trimLeading ws n [] = []"
| "trimLeading ws (Suc n) (c # cs) = trimLeading ws n cs"
| "trimLeading ws 0 (c # cs) =
     (case runeWidth ws (c # cs) of
        0 \<Rightarrow> c # cs
      | Suc k \<Rightarrow> trimLeading ws k cs)"

definition TrimLeftSpace :: "string \<Rightarrow> string" where
  "TrimLeftSpace s = trimLeading spaceRunes 0 s"

definition TrimRightSpace :: "string \<Rightarrow> string" where
  "TrimRightSpace s = rev (trimLeading (map rev spaceRunes) 0 (rev s))"

definition strings_TrimSpace :: "string \<Rightarrow> string" where
  "strings_TrimSpace s = TrimRightSpace (TrimLeftSpace s)"

text \<open>
  \<open>strconv.Atoi(s)\<close>: an optional sign \<open>+\<close> or \<open>-\<close>, then one or more decimal
  digits and nothing else; the value must fit Go's \<open>int\<close> (64 bits).  Every
  other string is an error (\<open>None\<close>): the caller only tests \<open>err == nil\<close>.
\<close>

definition isDigit :: "char \<Rightarrow> bool" where
  "isDigit c = (48 \<le> (of_char c :: nat) \<and> (of_char c :: nat) \<le> 57)"

definition digitsValue :: "string \<Rightarrow> int" where
  "digitsValue ds = foldl (\<lambda>n c. n * 10 + (int (of_char c) - 48)) 0 ds"

definition strconv_Atoi :: "string \<Rightarrow> int option" where
  "strconv_Atoi s =
     (let neg = (s \<noteq> [] \<and> hd s = CHR ''-'');
          ds = (if s \<noteq> [] \<and> (hd s = CHR ''-'' \<or> hd s = CHR ''+'') then tl s else s)
      in if ds = [] \<or> \<not> list_all isDigit ds then None
         else if neg then
           (if digitsValue ds > 2 ^ 63 then None else Some (- digitsValue ds))
         else
           (if digitsValue ds \<ge> 2 ^ 63 then None else Some (digitsValue ds)))"

subsection \<open>The Cache-Control parser\<close>

record cacheControl =
  Keys :: "string set"
  MaxAge :: Duration

text \<open>The zero value of the struct: no keys, a zero duration.\<close>

definition cacheControl_zero :: cacheControl where
  "cacheControl_zero = \<lparr>Keys = {}, MaxAge = 0\<rparr>"

text \<open>One round of the loop of \<open>parseCacheControl\<close>, on the element \<open>v\<close>.\<close>

definition parseElement :: "cacheControl \<Rightarrow> string \<Rightarrow> cacheControl" where
  "parseElement out v =
     (case strings_Cut (strings_TrimSpace v) CHR ''='' of
        (key, val, ok) \<Rightarrow>
          (let out1 =
                 (if ok \<and> key = ''max-age'' then
                    (case strconv_Atoi val of
                       Some sec \<Rightarrow> out\<lparr>MaxAge := word_of_int sec * Second\<rparr>
                     | None \<Rightarrow> out)
                  else out)
           in out1\<lparr>Keys := insert key (Keys out1)\<rparr>))"

fun parseElements :: "cacheControl \<Rightarrow> string list \<Rightarrow> cacheControl" where
  "parseElements out [] = out"
| "parseElements out (v # vs) = parseElements (parseElement out v) vs"

definition parseCacheControl :: "string \<Rightarrow> cacheControl" where
  "parseCacheControl s = parseElements cacheControl_zero (strings_Split s CHR '','')"

subsection \<open>HTTP messages\<close>

text \<open>
  \<open>http.Header\<close> is a map from header names to the list of their values.  The
  names the resolver uses (\<open>Cache-Control\<close>, \<open>X-Cache\<close>, \<open>X-Cache-Id\<close>,
  \<open>Content-Type\<close>, ...) are in canonical form already, so the
  canonicalisation that \<open>Get\<close>, \<open>Set\<close>, \<open>Add\<close> and \<open>Del\<close> apply to a name is
  the identity on them.
\<close>

type_synonym Header = "string \<rightharpoonup> string list"

definition Header_Get :: "Header \<Rightarrow> string \<Rightarrow> string" where
  "Header_Get h k = (case h k of None \<Rightarrow> [] | Some [] \<Rightarrow> [] | Some (v # _) \<Rightarrow> v)"

definition Header_Set :: "Header \<Rightarrow> string \<Rightarrow> string \<Rightarrow> Header" where
  "Header_Set h k v = h(k \<mapsto> [v])"

definition Header_Add :: "Header \<Rightarrow> string \<Rightarrow> string \<Rightarrow> Header" where
  "Header_Add h k v = h(k \<mapsto> (case h k of None \<Rightarrow> [v] | Some vs \<Rightarrow> vs @ [v]))"

definition Header_Del :: "Header \<Rightarrow> string \<Rightarrow> Header" where
  "Header_Del h k = h(k := None)"

record URL =
  Scheme :: string
  Opaque :: string
  URL_Host :: string
  Path :: string
  RawQuery :: string

record Request =
  Method :: string
  reqURL :: URL
  Host :: string
  RequestURI :: string
  reqHeader :: Header

record Response =
  StatusCode :: int
  rspHeader :: Header
  Body :: string

text \<open>
  What a handler has written to its \<open>http.ResponseWriter\<close>: the header map,
  the status (\<open>None\<close> until the header is written) and the body bytes.
\<close>

record ResponseWriter =
  wHeader :: Header
  wStatus :: "int option"
  wBody :: string

definition newResponseWriter :: ResponseWriter where
  "newResponseWriter = \<lparr>wHeader = Map.empty, wStatus = None, wBody = []\<rparr>"

definition WriteHeader :: "ResponseWriter \<Rightarrow> int \<Rightarrow> ResponseWriter" where
  "WriteHeader w code = (case wStatus w of None \<Rightarrow> w\<lparr>wStatus := Some code\<rparr> | Some _ \<Rightarrow> w)"

text \<open>\<open>w.Write\<close> writes the status 200 first when no status has been written.\<close>

definition Write :: "ResponseWriter \<Rightarrow> string \<Rightarrow> ResponseWriter" where
  "Write w b = (let w1 = WriteHeader w 200 in w1\<lparr>wBody := wBody w1 @ b\<rparr>)"

definition StatusOK :: int where
  "StatusOK = 200"

definition StatusBadGateway :: int where
  "StatusBadGateway = 502"

text \<open>\<open>http.StatusText\<close>, on the one code the resolver passes to it.\<close>

definition StatusText :: "int \<Rightarrow> string" where
  "StatusText code = (if code = 502 then ''Bad Gateway'' else [])"

text \<open>\<open>http.Error(w, error, code)\<close> of the standard library (Go 1.25).\<close>

definition http_Error :: "ResponseWriter \<Rightarrow> string \<Rightarrow> int \<Rightarrow> ResponseWriter" where
  "http_Error w err code =
     (let h1 = Header_Del (wHeader w) ''Content-Length'';
          h2 = Header_Set h1 ''Content-Type'' ''text/plain; charset=utf-8'';
          h3 = Header_Set h2 ''X-Content-Type-Options'' ''nosniff''
      in Write (WriteHeader (w\<lparr>wHeader := h3\<rparr>) code) (err @ [CHR 0x0A]))"

subsection \<open>The cacheability predicates and the target check\<close>

text \<open>\<open>slices.Contains\<close>: the loop that compares each element with \<open>v\<close>.\<close>

fun slices_Contains :: "'a list \<Rightarrow> 'a \<Rightarrow> bool" where
  "slices_Contains [] v = False"
| "slices_Contains (x # xs) v = (if v = x then True else slices_Contains xs v)"

definition hostMatchesTarget :: "string \<Rightarrow> string list \<Rightarrow> bool" where
  "hostMatchesTarget host targets = slices_Contains targets host"

definition canCacheRequest :: "Request \<Rightarrow> bool" where
  "canCacheRequest r =
     (Method r = ''GET'' \<and>
      ''no-store'' \<notin> Keys (parseCacheControl (Header_Get (reqHeader r) ''Cache-Control'')))"

definition goodLongTime :: Duration where
  "goodLongTime = 60 * 24 * Hour"

definition canCacheResponse :: "Response \<Rightarrow> bool" where
  "canCacheResponse rsp =
     (if StatusCode rsp \<noteq> StatusOK then False
      else (let cc = parseCacheControl (Header_Get (rspHeader rsp) ''Cache-Control'') in
        if ''no-store'' \<in> Keys cc then False
        else if ''immutable'' \<in> Keys cc then True
        else ''must-revalidate'' \<in> Keys cc \<and> int64_less goodLongTime (MaxAge cc)))"

definition canMemoryCache :: "Response \<Rightarrow> Duration \<times> bool" where
  "canMemoryCache rsp =
     (if StatusCode rsp \<noteq> StatusOK then (0, False)
      else (let cc = parseCacheControl (Header_Get (rspHeader rsp) ''Cache-Control'') in
        if ''no-store'' \<in> Keys cc \<or> ''no-cache'' \<in> Keys cc then (0, False)
        else if int64_less 0 (MaxAge cc) \<and> int64_less (MaxAge cc) Hour then (MaxAge cc, True)
        else (0, False)))"

subsection \<open>The environment of the resolver\<close>

text \<open>
  What the resolver calls and this repository does not implement is a field
  of the environment: the text of a URL and the hexadecimal SHA-256 digest
  (\<open>u.String()\<close>, \<open>sha256.Sum256\<close>), the grammar of \<open>net/url\<close>, the origin behind
  the transport of the reverse proxy (\<open>None\<close>: the round trip failed), the
  header names an entry keeps, the number of bytes that the names and values
  of a header map take, and which reads and writes of the disk and of the
  bucket fail.
\<close>

record Env =
  URL_String :: "URL \<Rightarrow> string"
  Sum256hex :: "string \<Rightarrow> string"
  uriGrammar :: "string \<Rightarrow> URL option"
  roundTrip :: "Request \<Rightarrow> Response option"
  savedHeader :: "string \<Rightarrow> bool"
  headerBytes :: "Header \<Rightarrow> nat"
  localLoadFails :: "string \<Rightarrow> bool"
  localStoreFails :: "string \<Rightarrow> bool"
  remoteLoadFails :: "string \<Rightarrow> bool"
  remoteStoreFails :: "string \<Rightarrow> bool"

definition hashRequestURL :: "Env \<Rightarrow> URL \<Rightarrow> string" where
  "hashRequestURL env u = Sum256hex env (URL_String env u)"

subsection \<open>Rewriting the request for the target\<close>

text \<open>
  \<open>url.ParseRequestURI\<close> returns a nil URL and an error for a string with an
  ASCII control byte and for the empty string (the first two checks of the
  parser); what it does with any other string is the grammar of the
  environment.
\<close>

definition isCTLByte :: "char \<Rightarrow> bool" where
  "isCTLByte c = ((of_char c :: nat) < 32 \<or> (of_char c :: nat) = 127)"

definition url_ParseRequestURI :: "Env \<Rightarrow> string \<Rightarrow> URL option" where
  "url_ParseRequestURI env rawURL =
     (if list_ex isCTLByte rawURL then None
      else if rawURL = [] then None
      else uriGrammar env rawURL)"

datatype panic = NilPointerDereference

record ProxyRequest =
  In :: Request
  Out :: Request

text \<open>
  The error of the parser is dropped (\<open>u, _ := ...\<close>); the next statement
  writes a field through \<open>u\<close>, which panics when \<open>u\<close> is nil.
\<close>

definition rewriteRequest :: "Env \<Rightarrow> ProxyRequest \<Rightarrow> panic + ProxyRequest" where
  "rewriteRequest env pr =
     (case url_ParseRequestURI env (RequestURI (In pr)) of
        None \<Rightarrow> Inl NilPointerDereference
      | Some u0 \<Rightarrow>
          (let u1 = u0\<lparr>URL_Host := Host (In pr)\<rparr>;
               u2 = (if Scheme u1 = [] then u1\<lparr>Scheme := ''https''\<rparr> else u1)
           in Inr (pr\<lparr>Out := (Out pr)\<lparr>reqURL := u2, Host := URL_Host u2\<rparr>\<rparr>)))"

subsection \<open>The server and what its handles point to\<close>

datatype cacheErr = NotFound | Failed

datatype logArg = S string | B bool | N nat | E cacheErr

text \<open>
  A log line is the format string and its arguments; the elapsed time that
  the trace lines end with is left out.
\<close>

type_synonym logLine = "string \<times> logArg list"

text \<open>The calls the resolver makes to the cache tiers, the pool and the origin.\<close>

datatype call =
    LoadMemory string
  | LoadLocal string
  | LoadS3 string
  | StoreMemory string
  | StoreLocal string
  | StartPush string
  | RoundTrip Request

record memCacheEntry =
  mHeader :: Header
  mBody :: string
  mMaxAge :: Duration

record pushTask =
  pHash :: string
  pHeader :: Header
  pBody :: string

text \<open>
  The fields of \<open>Server\<close> that the resolver reads and writes, followed by the
  contents of the local cache directory (\<open>disk\<close>) and of the bucket, both keyed
  by the request hash, the lines passed to \<open>Logf\<close>, and the calls made.
  \<open>LogfSet\<close> says that \<open>Logf\<close> is not nil.  \<open>mcache\<close> lists the entries of the
  memory cache, most recently used first; \<open>tasks\<close> lists the tasks handed to
  the background pool; \<open>expire\<close> lists the scheduled expirations.
\<close>

record Server =
  Targets :: "string list"
  LogfSet :: bool
  LogRequests :: bool
  initOnce :: bool
  tasks :: "pushTask list"
  mcache :: "(string \<times> memCacheEntry) list"
  expire :: "(string \<times> Duration) list"
  reqReceived :: int64
  reqMemoryHit :: int64
  reqLocalHit :: int64
  reqLocalMiss :: int64
  reqFaultHit :: int64
  reqFaultMiss :: int64
  reqForward :: int64
  rspSave :: int64
  rspSaveMem :: int64
  rspSaveError :: int64
  rspSaveBytes :: int64
  rspPush :: int64
  rspPushError :: int64
  rspPushBytes :: int64
  rspNotCached :: int64
  disk :: "string \<rightharpoonup> Header \<times> string"
  bucket :: "string \<rightharpoonup> Header \<times> string"
  logged :: "logLine list"
  calls :: "call list"

text \<open>\<open>init\<close> creates the pool, the memory cache and the timer queue, once.\<close>

definition init :: "Server \<Rightarrow> Server" where
  "init s =
     (if initOnce s then s
      else s\<lparr>initOnce := True, tasks := [], mcache := [], expire := []\<rparr>)"

definition logf :: "Server \<Rightarrow> string \<Rightarrow> logArg list \<Rightarrow> Server" where
  "logf s msg args = (if LogfSet s then s\<lparr>logged := logged s @ [(msg, args)]\<rparr> else s)"

definition vlogf :: "Server \<Rightarrow> string \<Rightarrow> logArg list \<Rightarrow> Server" where
  "vlogf s msg args = (if LogRequests s then logf s msg args else s)"

subsection \<open>The cache tiers\<close>

text \<open>
  The functions of this subsection are called by \<open>ServeHTTP\<close> but their file is
  not among the sources; each is modelled from the specification.
\<close>

text \<open>
  Modelled from the spec: an entry keeps only a fixed subset of the
  response header names (section 3, cache entry); \<open>savedHeader\<close> of the
  environment is that subset.
\<close>

definition savedHeaders :: "Env \<Rightarrow> Header \<Rightarrow> Header" where
  "savedHeaders env h = (\<lambda>k. if savedHeader env k then h k else None)"

text \<open>
  Modelled from the spec: \<open>setXCacheInfo\<close> is missing; it sets \<open>X-Cache\<close> to the
  disposition token, and \<open>X-Cache-Id\<close> to the hash when the response
  intersected the cache (the resolver passes an empty hash otherwise).
\<close>

definition setXCacheInfo :: "Header \<Rightarrow> string \<Rightarrow> string \<Rightarrow> Header" where
  "setXCacheInfo h result hash =
     (let h1 = Header_Set h ''X-Cache'' result
      in if hash \<noteq> [] then Header_Set h1 ''X-Cache-Id'' hash else h1)"

text \<open>
  Modelled from the spec: \<open>entrySize\<close> is missing; the size of a memory
  entry is the length of the body plus the lengths of the names and values
  of its headers (section 3).
\<close>

definition entrySize :: "Env \<Rightarrow> memCacheEntry \<Rightarrow> nat" where
  "entrySize env e = length (mBody e) + headerBytes env (mHeader e)"

text \<open>The byte budget that \<open>init\<close> gives the memory cache: \<open>10 << 20\<close>.\<close>

definition mcacheLimit :: nat where
  "mcacheLimit = 10 * 2 ^ 20"

text \<open>
  Modelled from the spec: the memory cache is a library type; section 4.D
  describes it as an LRU map with a byte budget.  \<open>evictOldest\<close> takes the
  entries least recently used first and drops entries from the front until
  the rest fits the budget.
\<close>

fun evictOldest :: "('e \<Rightarrow> nat) \<Rightarrow> nat \<Rightarrow> (string \<times> 'e) list \<Rightarrow> (string \<times> 'e) list" where
  "evictOldest sz budget [] = []"
| "evictOldest sz budget (p # ps) =
     (if sum_list (map (\<lambda>q. sz (snd q)) (p # ps)) \<le> budget then p # ps
      else evictOldest sz budget ps)"

text \<open>
  Modelled from the spec: \<open>cacheLoadMemory\<close> is missing; a lookup in the
  memory cache (4.D, step 4a) returns the body and headers of the entry, and
  a hit makes the entry the most recently used.
\<close>

definition cacheLoadMemory :: "Server \<Rightarrow> string \<Rightarrow> (cacheErr + string \<times> Header) \<times> Server" where
  "cacheLoadMemory s hash =
     (let s1 = s\<lparr>calls := calls s @ [LoadMemory hash]\<rparr>
      in case map_of (mcache s1) hash of
           None \<Rightarrow> (Inl NotFound, s1)
         | Some e \<Rightarrow>
             (Inr (mBody e, mHeader e),
              s1\<lparr>mcache := (hash, e) # filter (\<lambda>p. fst p \<noteq> hash) (mcache s1)\<rparr>))"

text \<open>
  Modelled from the spec: \<open>cacheStoreMemory\<close> is missing; it inserts the
  entry with its lifetime and schedules its expiration (4.D); an entry
  larger than the budget is dropped silently, and the entries least
  recently used are evicted to keep the total within the budget.
\<close>

definition cacheStoreMemory ::
  "Env \<Rightarrow> Server \<Rightarrow> string \<Rightarrow> Duration \<Rightarrow> Header \<Rightarrow> string \<Rightarrow> Server" where
  "cacheStoreMemory env s hash maxAge hdr body =
     (let s1 = s\<lparr>calls := calls s @ [StoreMemory hash]\<rparr>;
          e = \<lparr>mHeader = savedHeaders env hdr, mBody = body, mMaxAge = maxAge\<rparr>
      in if entrySize env e > mcacheLimit then s1
         else s1\<lparr>mcache := rev (evictOldest (entrySize env) mcacheLimit
                                  (rev ((hash, e) # filter (\<lambda>p. fst p \<noteq> hash) (mcache s1)))),
                 expire := expire s1 @ [(hash, maxAge)]\<rparr>)"

text \<open>
  Modelled from the spec: \<open>cacheLoadLocal\<close> is missing; it reads the entry
  of the hash from the local cache directory (4.E): the headers and body, or
  not found, or a failure (an I/O error or an entry that does not decode).
\<close>

definition cacheLoadLocal ::
  "Env \<Rightarrow> Server \<Rightarrow> string \<Rightarrow> (cacheErr + string \<times> Header) \<times> Server" where
  "cacheLoadLocal env s hash =
     (let s1 = s\<lparr>calls := calls s @ [LoadLocal hash]\<rparr>
      in if localLoadFails env hash then (Inl Failed, s1)
         else (case disk s1 hash of
                 None \<Rightarrow> (Inl NotFound, s1)
               | Some (hdr, body) \<Rightarrow> (Inr (body, hdr), s1)))"

text \<open>
  Modelled from the spec: \<open>cacheStoreLocal\<close> is missing; it writes the entry
  of the hash to the local cache directory atomically (4.E), or fails and
  leaves the directory as it was.
\<close>

definition cacheStoreLocal ::
  "Env \<Rightarrow> Server \<Rightarrow> string \<Rightarrow> Header \<Rightarrow> string \<Rightarrow> cacheErr option \<times> Server" where
  "cacheStoreLocal env s hash hdr body =
     (let s1 = s\<lparr>calls := calls s @ [StoreLocal hash]\<rparr>
      in if localStoreFails env hash then (Some Failed, s1)
         else (None, s1\<lparr>disk := (disk s1)(hash \<mapsto> (savedHeaders env hdr, body))\<rparr>))"

text \<open>
  Modelled from the spec: \<open>cacheLoadS3\<close> is missing; it gets the object of
  the hash from the bucket and decodes it (4.F).
\<close>

definition cacheLoadS3 ::
  "Env \<Rightarrow> Server \<Rightarrow> string \<Rightarrow> (cacheErr + string \<times> Header) \<times> Server" where
  "cacheLoadS3 env s hash =
     (let s1 = s\<lparr>calls := calls s @ [LoadS3 hash]\<rparr>
      in if remoteLoadFails env hash then (Inl Failed, s1)
         else (case bucket s1 hash of
                 None \<Rightarrow> (Inl NotFound, s1)
               | Some (hdr, body) \<Rightarrow> (Inr (body, hdr), s1)))"

text \<open>
  Modelled from the spec: \<open>cacheStoreS3\<close> is missing; it returns the task
  that puts the entry into the bucket and updates \<open>rsp_push\<close>,
  \<open>rsp_push_error\<close> and \<open>rsp_push_bytes\<close> (4.G, step 6).  \<open>runTask\<close> is what the
  task does when the pool runs it.
\<close>

definition cacheStoreS3 :: "string \<Rightarrow> Header \<Rightarrow> string \<Rightarrow> pushTask" where
  "cacheStoreS3 hash hdr body = \<lparr>pHash = hash, pHeader = hdr, pBody = body\<rparr>"

definition runTask :: "Env \<Rightarrow> Server \<Rightarrow> pushTask \<Rightarrow> Server" where
  "runTask env s t =
     (if remoteStoreFails env (pHash t) then s\<lparr>rspPushError := rspPushError s + 1\<rparr>
      else s\<lparr>bucket := (bucket s)(pHash t \<mapsto> (savedHeaders env (pHeader t), pBody t)),
             rspPush := rspPush s + 1,
             rspPushBytes := rspPushBytes s + of_nat (length (pBody t))\<rparr>)"

text \<open>\<open>s.start(task)\<close> hands the task to the background pool.\<close>

definition start :: "Server \<Rightarrow> pushTask \<Rightarrow> Server" where
  "start s t = s\<lparr>calls := calls s @ [StartPush (pHash t)], tasks := tasks s @ [t]\<rparr>"

subsection \<open>Writing responses\<close>

text \<open>
  The loop \<open>for name, vals := range hdr { for _, val := range vals { dst.Add(name, val) } }\<close>:
  the names of a map are distinct, so the rounds of the outer loop act on
  different names and their order does not matter; the inner loop adds the
  values of one name in order.
\<close>

definition addValues :: "Header \<Rightarrow> Header \<Rightarrow> Header" where
  "addValues dst src =
     (\<lambda>name. case src name of
               None \<Rightarrow> dst name
             | Some vals \<Rightarrow> (foldl (\<lambda>h val. Header_Add h name val) dst vals) name)"

definition writeCachedResponse :: "ResponseWriter \<Rightarrow> Header \<Rightarrow> string \<Rightarrow> ResponseWriter" where
  "writeCachedResponse w hdr body = Write (w\<lparr>wHeader := addValues (wHeader w) hdr\<rparr>) body"

subsection \<open>The resolver\<close>

text \<open>
  The block \<open>if canCache { ... }\<close> of \<open>ServeHTTP\<close>: the lookups in the memory
  cache, the local cache and the bucket, in this order.  The result is the
  response written on a hit, or \<open>None\<close> when the three tiers miss.
\<close>

definition lookupCache ::
  "Env \<Rightarrow> Server \<Rightarrow> ResponseWriter \<Rightarrow> string \<Rightarrow> ResponseWriter option \<times> Server" where
  "lookupCache env s w hash =
     (case cacheLoadMemory s hash of
        (Inr (data, hdr), s1) \<Rightarrow>
          (Some (writeCachedResponse w (setXCacheInfo hdr ''hit, memory'' hash) data),
           vlogf (s1\<lparr>reqMemoryHit := reqMemoryHit s1 + 1\<rparr>)
             ''rp E H:%s hit mem B:%d (%v elapsed)'' [S hash, N (length data)])
      | (Inl _, s1) \<Rightarrow>
          (case cacheLoadLocal env s1 hash of
             (Inr (data, hdr), s2) \<Rightarrow>
               (Some (writeCachedResponse w (setXCacheInfo hdr ''hit, local'' hash) data),
                vlogf (s2\<lparr>reqLocalHit := reqLocalHit s2 + 1\<rparr>)
                  ''rp E H:%s hit disk B:%d (%v elapsed)'' [S hash, N (length data)])
           | (Inl _, s2) \<Rightarrow>
               (let s3 = s2\<lparr>reqLocalMiss := reqLocalMiss s2 + 1\<rparr>
                in case cacheLoadS3 env s3 hash of
                     (Inr (data, hdr), s4) \<Rightarrow>
                       (let s5 = s4\<lparr>reqFaultHit := reqFaultHit s4 + 1\<rparr>;
                            s6 = (case cacheStoreLocal env s5 hash hdr data of
                                    (Some err, t) \<Rightarrow>
                                      logf t ''update %q local: %v'' [S hash, E err]
                                  | (None, t) \<Rightarrow> t)
                        in (Some (writeCachedResponse w
                                    (setXCacheInfo hdr ''hit, remote'' hash) data),
                            vlogf s6 ''rp E H:%s hit S3 B:%d (%v elapsed)''
                              [S hash, N (length data)]))
                   | (Inl _, s4) \<Rightarrow>
                       (None,
                        vlogf (s4\<lparr>reqFaultMiss := reqFaultMiss s4 + 1\<rparr>)
                          ''rp - H:%s miss'' [S hash]))))"

text \<open>
  Which \<open>updateCache\<close> closure the response hook has installed: the initial
  \<open>func() {}\<close>, the one that stores in memory, or the one that stores on disk
  and pushes to the bucket.
\<close>

datatype update = NoUpdate | UpdateMemory Duration | UpdateLocal

text \<open>
  The function assigned to \<open>proxy.ModifyResponse\<close>: it returns the response
  with its header changed in place, the closure installed, and the server.
  It always returns a nil error.
\<close>

definition modifyResponse :: "string \<Rightarrow> Server \<Rightarrow> Response \<Rightarrow> Response \<times> update \<times> Server" where
  "modifyResponse hash s rsp =
     (case canMemoryCache rsp of
        (maxAge, isVolatile) \<Rightarrow>
          (let canCacheRsp = canCacheResponse rsp
           in if \<not> canCacheRsp \<and> \<not> isVolatile then
                (rsp\<lparr>rspHeader := setXCacheInfo (rspHeader rsp) ''fetch, uncached'' []\<rparr>,
                 NoUpdate,
                 vlogf (s\<lparr>rspNotCached := rspNotCached s + 1\<rparr>)
                   ''rp E H:%s fetch RC:no (%v elapsed)'' [S hash])
              else if \<not> canCacheRsp \<and> isVolatile then
                (rsp\<lparr>rspHeader := setXCacheInfo (rspHeader rsp) ''fetch, cached, volatile'' hash\<rparr>,
                 UpdateMemory maxAge, s)
              else
                (rsp\<lparr>rspHeader := setXCacheInfo (rspHeader rsp) ''fetch, cached'' hash\<rparr>,
                 UpdateLocal, s)))"

text \<open>
  The call \<open>updateCache()\<close> after the proxy has served the response: \<open>hdr\<close> is
  \<open>rsp.Header\<close> and \<open>body\<close> the bytes of the buffer behind the tee reader.
\<close>

definition updateCache ::
  "Env \<Rightarrow> Server \<Rightarrow> string \<Rightarrow> update \<Rightarrow> Header \<Rightarrow> string \<Rightarrow> Server" where
  "updateCache env s hash upd hdr body =
     (case upd of
        NoUpdate \<Rightarrow> s
      | UpdateMemory maxAge \<Rightarrow>
          (let s1 = cacheStoreMemory env s hash maxAge hdr body;
               s2 = s1\<lparr>rspSaveMem := rspSaveMem s1 + 1\<rparr>
           in vlogf s2 ''rp E H:%s fetch RC:mem B:%d (%v elapsed)'' [S hash, N (length body)])
      | UpdateLocal \<Rightarrow>
          (let s1 = (case cacheStoreLocal env s hash hdr body of
                       (Some err, t) \<Rightarrow>
                         logf (t\<lparr>rspSaveError := rspSaveError t + 1\<rparr>)
                           ''save %q to cache: %v'' [S hash, E err]
                     | (None, t) \<Rightarrow>
                         start (t\<lparr>rspSave := rspSave t + 1,
                                  rspSaveBytes := rspSaveBytes t + of_nat (length body)\<rparr>)
                               (cacheStoreS3 hash hdr body))
           in vlogf s1 ''rp E H:%s fetch RC:yes B:%d (%v elapsed)'' [S hash, N (length body)]))"

datatype outcome = Returned | Panicked panic

text \<open>
  \<open>httputil.ReverseProxy.ServeHTTP\<close> with \<open>Rewrite\<close> set to \<open>rewriteRequest\<close> and
  \<open>ModifyResponse\<close> set to \<open>modify\<close> or left nil (\<open>None\<close>).  The standard library
  rewrites a copy of the request, and a panic of the rewriter leaves the
  handler; it sends the rewritten request to the origin; when the round trip
  fails it answers 502 and does not call the hook; otherwise it calls the
  hook, copies the headers of the response and its status to the client and
  then the body, which passes through the tee reader whole.  The result also
  holds what the closure captures: the update installed, \<open>rsp.Header\<close> and
  the bytes read.
\<close>

definition ReverseProxy_ServeHTTP ::
  "Env \<Rightarrow> (Server \<Rightarrow> Response \<Rightarrow> Response \<times> update \<times> Server) option \<Rightarrow>
   Server \<Rightarrow> ResponseWriter \<Rightarrow> Request \<Rightarrow>
   outcome \<times> ResponseWriter \<times> Server \<times> update \<times> Header \<times> string" where
  "ReverseProxy_ServeHTTP env modify s w r =
     (case rewriteRequest env \<lparr>In = r, Out = r\<rparr> of
        Inl p \<Rightarrow> (Panicked p, w, s, NoUpdate, Map.empty, [])
      | Inr pr \<Rightarrow>
          (let s1 = s\<lparr>calls := calls s @ [RoundTrip (Out pr)]\<rparr>
           in case roundTrip env (Out pr) of
                None \<Rightarrow> (Returned, WriteHeader w StatusBadGateway, s1, NoUpdate, Map.empty, [])
              | Some rsp \<Rightarrow>
                  (case (case modify of
                           None \<Rightarrow> (rsp, NoUpdate, s1)
                         | Some f \<Rightarrow> f s1 rsp) of
                     (rsp1, upd, s2) \<Rightarrow>
                       (Returned,
                        Write (WriteHeader (w\<lparr>wHeader := addValues (wHeader w) (rspHeader rsp1)\<rparr>)
                                 (StatusCode rsp1))
                              (Body rsp1),
                        s2, upd, rspHeader rsp1, Body rsp1))))"

text \<open>
  The part of \<open>ServeHTTP\<close> after the lookups: count the forward, run the
  proxy with the response hook when the request can be cached, then call
  \<open>updateCache\<close>.
\<close>

definition forward ::
  "Env \<Rightarrow> Server \<Rightarrow> ResponseWriter \<Rightarrow> Request \<Rightarrow> string \<Rightarrow> bool \<Rightarrow>
   outcome \<times> ResponseWriter \<times> Server" where
  "forward env s w r hash canCache =
     (let s1 = s\<lparr>reqForward := reqForward s + 1\<rparr>;
          modify = (if canCache then Some (modifyResponse hash) else None)
      in case ReverseProxy_ServeHTTP env modify s1 w r of
           (Panicked p, w1, s2, upd, hdr, body) \<Rightarrow> (Panicked p, w1, s2)
         | (Returned, w1, s2, upd, hdr, body) \<Rightarrow>
             (Returned, w1, updateCache env s2 hash upd hdr body))"

definition ServeHTTP ::
  "Env \<Rightarrow> Server \<Rightarrow> ResponseWriter \<Rightarrow> Request \<Rightarrow> outcome \<times> ResponseWriter \<times> Server" where
  "ServeHTTP env s0 w r =
     (let s1 = init s0;
          s2 = s1\<lparr>reqReceived := reqReceived s1 + 1\<rparr>
      in if \<not> hostMatchesTarget (Host r) (Targets s2) then
           (Returned,
            http_Error w (StatusText StatusBadGateway) StatusBadGateway,
            logf s2 ''reject proxy request for non-target %q'' [S (Host r)])
         else
           (let hash = hashRequestURL env (reqURL r);
                canCache = canCacheRequest r;
                s3 = vlogf s2 ''rp B U:%q H:%s C:%v''
                       [S (URL_String env (reqURL r)), S hash, B canCache]
            in case (if canCache then lookupCache env s3 w hash else (None, s3)) of
                 (Some w1, s4) \<Rightarrow> (Returned, w1, s4)
               | (None, s4) \<Rightarrow> forward env s4 w r hash canCache))"

text \<open>\<open>Metrics\<close>: the counters under their published names.\<close>

definition Metrics :: "Server \<Rightarrow> (string \<times> int64) list" where
  "Metrics s =
     [(''req_received'', reqReceived s),
      (''req_memory_hit'', reqMemoryHit s),
      (''req_local_hit'', reqLocalHit s),
      (''req_local_miss'', reqLocalMiss s),
      (''req_fault_hit'', reqFaultHit s),
      (''req_fault_miss'', reqFaultMiss s),
      (''req_forward'', reqForward s),
      (''rsp_save'', rspSave s),
      (''rsp_save_memory'', rspSaveMem s),
      (''rsp_save_error'', rspSaveError s),
      (''rsp_save_bytes'', rspSaveBytes s),
      (''rsp_push'', rspPush s),
      (''rsp_push_error'', rspPushError s),
      (''rsp_push_bytes'', rspPushBytes s),
      (''rsp_not_cached'', rspNotCached s)]"

subsection \<open>Notions used to state the properties\<close>

text \<open>The key of an element of a \<open>Cache-Control\<close> value, after trimming.\<close>

definition elementKey :: "string \<Rightarrow> string" where
  "elementKey v = fst (strings_Cut (strings_TrimSpace v) CHR ''='')"

text \<open>
  The number of seconds an element gives: defined for an element
  \<open>max-age=<value>\<close> whose value \<open>strconv.Atoi\<close> accepts.
\<close>

definition elementMaxAge :: "string \<Rightarrow> int option" where
  "elementMaxAge v =
     (case strings_Cut (strings_TrimSpace v) CHR ''='' of
        (key, val, ok) \<Rightarrow> if ok \<and> key = ''max-age'' then strconv_Atoi val else None)"

definition maxAgeValues :: "string list \<Rightarrow> int list" where
  "maxAgeValues vs =
     concat (map (\<lambda>v. case elementMaxAge v of None \<Rightarrow> [] | Some sec \<Rightarrow> [sec]) vs)"

text \<open>\<open>strings.Join\<close> with a separator of one byte, the inverse of \<open>strings_Split\<close>.\<close>

fun strings_Join :: "string list \<Rightarrow> char \<Rightarrow> string" where
  "strings_Join [] sep = []"
| "strings_Join [x] sep = x"
| "strings_Join (x # y # ys) sep = x @ sep # strings_Join (y # ys) sep"

text \<open>The disposition tokens of the \<open>X-Cache\<close> header.\<close>

definition dispositions :: "string set" where
  "dispositions =
     {''hit, memory'', ''hit, local'', ''hit, remote'',
      ''fetch, cached'', ''fetch, cached, volatile'', ''fetch, uncached''}"

text \<open>The hash that \<open>ServeHTTP\<close> computes for a request.\<close>

definition requestHash :: "Env \<Rightarrow> Request \<Rightarrow> string" where
  "requestHash env r = hashRequestURL env (reqURL r)"

subsection \<open>A concrete server, environment and requests\<close>

text \<open>
  The examples run the resolver with one target, \<open>x.example\<close>, empty caches
  and an origin that answers every request with an immutable \<open>hello\<close>.  The
  digest and the URL grammar are stand-ins: the text of the URL serves as its
  own hash, and a request URI parses when it starts with a slash.
\<close>

definition exampleEnv :: Env where
  "exampleEnv =
     \<lparr>URL_String = (\<lambda>u. Scheme u @ ''://'' @ URL_Host u @ Path u),
      Sum256hex = (\<lambda>t. t),
      uriGrammar = (\<lambda>raw. if hd raw = CHR ''/''
                           then Some \<lparr>Scheme = [], Opaque = [], URL_Host = [], Path = raw,
                                      RawQuery = []\<rparr>
                           else None),
      roundTrip = (\<lambda>r. Some \<lparr>StatusCode = 200,
                               rspHeader = [''Cache-Control'' \<mapsto> [''immutable'']],
                               Body = ''hello''\<rparr>),
      savedHeader = (\<lambda>k. True),
      headerBytes = (\<lambda>h. 0),
      localLoadFails = (\<lambda>h. False),
      localStoreFails = (\<lambda>h. False),
      remoteLoadFails = (\<lambda>h. False),
      remoteStoreFails = (\<lambda>h. False)\<rparr>"

definition exampleServer :: Server where
  "exampleServer =
     \<lparr>Targets = [''x.example''], LogfSet = True, LogRequests = False, initOnce = True,
      tasks = [], mcache = [], expire = [],
      reqReceived = 0, reqMemoryHit = 0, reqLocalHit = 0, reqLocalMiss = 0,
      reqFaultHit = 0, reqFaultMiss = 0, reqForward = 0, rspSave = 0, rspSaveMem = 0,
      rspSaveError = 0, rspSaveBytes = 0, rspPush = 0, rspPushError = 0, rspPushBytes = 0,
      rspNotCached = 0,
      disk = Map.empty, bucket = Map.empty, logged = [], calls = []\<rparr>"

definition exampleURL :: URL where
  "exampleURL =
     \<lparr>Scheme = ''http'', Opaque = [], URL_Host = ''x.example'', Path = ''/a'', RawQuery = []\<rparr>"

text \<open>\<open>GET http://x.example/a\<close> with no header.\<close>

definition exampleGet :: Request where
  "exampleGet =
     \<lparr>Method = ''GET'', reqURL = exampleURL, Host = ''x.example'', RequestURI = ''/a'',
      reqHeader = Map.empty\<rparr>"

text \<open>The same request with \<open>Cache-Control: no-store\<close>.\<close>

definition exampleNoStore :: Request where
  "exampleNoStore = exampleGet\<lparr>reqHeader := [''Cache-Control'' \<mapsto> [''no-store'']]\<rparr>"

text \<open>A \<open>POST\<close> to a host that is not a target.\<close>

definition examplePostOther :: Request where
  "examplePostOther = exampleGet\<lparr>Method := ''POST'', Host := ''other.example''\<rparr>"

text \<open>A \<open>POST\<close> to the target.\<close>

definition examplePost :: Request where
  "examplePost = exampleGet\<lparr>Method := ''POST''\<rparr>"

text \<open>A \<open>POST\<close> to the target whose request URI is empty.\<close>

definition examplePostNoURI :: Request where
  "examplePostNoURI = examplePost\<lparr>RequestURI := []\<rparr>"

text \<open>The entry that the examples find in the bucket.\<close>

definition exampleEntry :: "Header \<times> string" where
  "exampleEntry = ([''Content-Type'' \<mapsto> [''text/plain'']], ''hello'')"

text \<open>A request whose \<open>Host\<close> carries a port, and a server with the bare host as target.\<close>

definition examplePortRequest :: Request where
  "examplePortRequest = exampleGet\<lparr>Host := ''host.example.com:8080''\<rparr>"

definition examplePortServer :: Server where
  "examplePortServer = exampleServer\<lparr>Targets := [''host.example.com'']\<rparr>"

text \<open>The request that \<open>rewriteRequest\<close> makes of \<open>exampleGet\<close>.\<close>

definition exampleOut :: Request where
  "exampleOut = exampleGet\<lparr>reqURL := \<lparr>Scheme = ''https'', Opaque = [], URL_Host = ''x.example'',
                                        Path = ''/a'', RawQuery = []\<rparr>\<rparr>"

text \<open>The response of the origin of the examples.\<close>

definition exampleResponse :: Response where
  "exampleResponse =
     \<lparr>StatusCode = 200, rspHeader = [''Cache-Control'' \<mapsto> [''immutable'']], Body = ''hello''\<rparr>"

text \<open>A server whose bucket holds the entry of \<open>exampleGet\<close>, and nothing on disk.\<close>

definition exampleFaultServer :: Server where
  "exampleFaultServer = exampleServer\<lparr>bucket := [''http://x.example/a'' \<mapsto> exampleEntry]\<rparr>"

text \<open>An environment in which every write to the local cache fails.\<close>

definition exampleFailingEnv :: Env where
  "exampleFailingEnv = exampleEnv\<lparr>localStoreFails := (\<lambda>h. True)\<rparr>"

text \<open>The three components of the result of \<open>ServeHTTP\<close>.\<close>

definition outcomeOf :: "outcome \<times> ResponseWriter \<times> Server \<Rightarrow> outcome" where
  "outcomeOf x = fst x"

definition responseOf :: "outcome \<times> ResponseWriter \<times> Server \<Rightarrow> ResponseWriter" where
  "responseOf x = fst (snd x)"

definition serverOf :: "outcome \<times> ResponseWriter \<times> Server \<Rightarrow> Server" where
  "serverOf x = snd (snd x)"

section \<open>Properties\<close>

subsection \<open>Evaluation and basic facts\<close>

lemmas parse_defs =
  parseCacheControl_def parseElement_def strings_Cut_def strings_TrimSpace_def
  TrimRightSpace_def TrimLeftSpace_def runeWidth_def spaceRunes_def strconv_Atoi_def
  isDigit_def digitsValue_def cacheControl_zero_def

lemmas duration_defs = int64_less_def Second_def Hour_def goodLongTime_def

lemmas header_defs = Header_Get_def Header_Set_def Header_Add_def Header_Del_def addValues_def

lemmas writer_defs = newResponseWriter_def WriteHeader_def Write_def http_Error_def

lemmas example_defs =
  exampleEnv_def exampleServer_def exampleURL_def exampleGet_def exampleNoStore_def
  examplePostOther_def examplePost_def exampleEntry_def examplePortRequest_def
  examplePortServer_def exampleOut_def exampleResponse_def exampleFaultServer_def
  exampleFailingEnv_def examplePostNoURI_def

lemmas result_defs = outcomeOf_def responseOf_def serverOf_def

lemma slices_Contains_iff: "slices_Contains xs v \<longleftrightarrow> v \<in> set xs"
  by (induction xs) auto

lemma Split_nonempty: "strings_Split s sep \<noteq> []"
  by (induction s) (auto split: list.splits)

lemma Split_no_sep: "x \<in> set (strings_Split s sep) \<Longrightarrow> sep \<notin> set x"
  by (induction s arbitrary: x) (auto split: list.splits if_splits)

lemma Join_Cons: "strings_Join ((c # x) # xs) sep = c # strings_Join (x # xs) sep"
  by (cases xs) auto

lemma Join_Nil_Cons: "xs \<noteq> [] \<Longrightarrow> strings_Join ([] # xs) sep = sep # strings_Join xs sep"
  by (cases xs) auto

text \<open>Splitting loses nothing: joining the elements gives the string back.\<close>

lemma Join_Split: "strings_Join (strings_Split s sep) sep = s"
  by (induction s) (auto split: list.splits simp: Split_nonempty Join_Cons Join_Nil_Cons)

text \<open>
  Trimming leaves a contiguous part of the string that neither starts nor ends
  with a white space rune.
\<close>

lemma runeWidth_Nil [simp]: "runeWidth [] s = 0"
  by (simp add: runeWidth_def)

lemma runeWidth_Cons:
  "runeWidth (w # ws) s = (if prefix w s then length w else runeWidth ws s)"
  by (simp add: runeWidth_def)

lemma runeWidth_empty: "runeWidth ws [] = 0"
  by (induction ws) (auto simp: runeWidth_Cons)

lemma trimLeading_trimmed: "runeWidth ws (trimLeading ws n s) = 0"
  by (induction ws n s rule: trimLeading.induct)
     (simp_all add: runeWidth_empty split: nat.splits)

lemma trimLeading_suffix: "suffix (trimLeading ws n s) s"
  by (induction ws n s rule: trimLeading.induct) (simp_all add: suffix_Cons split: nat.splits)

lemma runeWidth_prefix: "prefix p t \<Longrightarrow> runeWidth ws t = 0 \<Longrightarrow> runeWidth ws p = 0"
proof (induction ws)
  case Nil
  then show ?case by simp
next
  case (Cons w ws)
  show ?case
  proof (cases "prefix w p")
    case True
    then have "prefix w t" using Cons.prems(1) by (rule prefix_order.trans)
    with Cons.prems(2) True show ?thesis by (simp add: runeWidth_Cons)
  next
    case False
    show ?thesis
    proof (cases "prefix w t")
      case True
      with Cons.prems(2) have "w = []" by (simp add: runeWidth_Cons)
      with False show ?thesis by simp
    next
      case nt: False
      with Cons False show ?thesis by (simp add: runeWidth_Cons)
    qed
  qed
qed

lemma TrimSpace_trimmed:
  "runeWidth spaceRunes (strings_TrimSpace s) = 0 \<and>
   runeWidth (map rev spaceRunes) (rev (strings_TrimSpace s)) = 0"
proof -
  have "suffix (trimLeading (map rev spaceRunes) 0 (rev (TrimLeftSpace s))) (rev (TrimLeftSpace s))"
    by (rule trimLeading_suffix)
  then have "prefix (strings_TrimSpace s) (TrimLeftSpace s)"
    by (simp add: strings_TrimSpace_def TrimRightSpace_def suffix_to_prefix)
  moreover have "runeWidth spaceRunes (TrimLeftSpace s) = 0"
    by (simp add: TrimLeftSpace_def trimLeading_trimmed)
  ultimately have "runeWidth spaceRunes (strings_TrimSpace s) = 0"
    by (rule runeWidth_prefix)
  then show ?thesis
    by (simp add: strings_TrimSpace_def TrimRightSpace_def trimLeading_trimmed)
qed

lemma TrimSpace_sublist: "sublist (strings_TrimSpace s) s"
proof -
  have "prefix (strings_TrimSpace s) (TrimLeftSpace s)"
    using trimLeading_suffix [of "map rev spaceRunes" 0 "rev (TrimLeftSpace s)"]
    by (simp add: strings_TrimSpace_def TrimRightSpace_def suffix_to_prefix)
  moreover have "suffix (TrimLeftSpace s) s"
    by (simp add: TrimLeftSpace_def trimLeading_suffix)
  ultimately show ?thesis
    by (meson prefix_imp_sublist suffix_imp_sublist sublist_order.order_trans)
qed

lemma foldl_digits_nonneg:
  "list_all isDigit ds \<Longrightarrow> 0 \<le> n \<Longrightarrow>
   0 \<le> foldl (\<lambda>n c. n * 10 + (int (of_char c) - 48)) n ds"
  by (induction ds arbitrary: n) (auto simp: isDigit_def)

lemma digitsValue_nonneg: "list_all isDigit ds \<Longrightarrow> 0 \<le> digitsValue ds"
  by (simp add: digitsValue_def foldl_digits_nonneg)

lemma strconv_Atoi_range: "strconv_Atoi s = Some n \<Longrightarrow> - (2 ^ 63) \<le> n \<and> n < 2 ^ 63"
  using digitsValue_nonneg [of s] digitsValue_nonneg [of "tl s"]
  by (auto simp: strconv_Atoi_def Let_def split: if_splits)

lemma Keys_parseElement: "Keys (parseElement out v) = insert (elementKey v) (Keys out)"
  by (simp add: parseElement_def elementKey_def Let_def split: prod.splits option.splits)

lemma MaxAge_parseElement:
  "MaxAge (parseElement out v) =
     (case elementMaxAge v of None \<Rightarrow> MaxAge out | Some sec \<Rightarrow> word_of_int sec * Second)"
  by (simp add: parseElement_def elementMaxAge_def Let_def split: prod.splits option.splits)

lemma Keys_parseElements: "Keys (parseElements out vs) = Keys out \<union> elementKey ` set vs"
  by (induction vs arbitrary: out) (auto simp: Keys_parseElement)

lemma MaxAge_parseElements:
  "MaxAge (parseElements out vs) =
     (if maxAgeValues vs = [] then MaxAge out
      else word_of_int (last (maxAgeValues vs)) * Second)"
proof (induction vs arbitrary: out)
  case Nil
  then show ?case by (simp add: maxAgeValues_def)
next
  case (Cons v vs)
  show ?case
  proof (cases "elementMaxAge v")
    case None
    then show ?thesis using Cons [of "parseElement out v"]
      by (simp add: MaxAge_parseElement maxAgeValues_def)
  next
    case (Some sec)
    then show ?thesis using Cons [of "parseElement out v"]
      by (simp add: MaxAge_parseElement maxAgeValues_def)
  qed
qed

lemma logf_alt:
  "logf s msg args =
     s\<lparr>logged := (if LogfSet s then logged s @ [(msg, args)] else logged s)\<rparr>"
  by (simp add: logf_def)

lemma vlogf_alt:
  "vlogf s msg args =
     s\<lparr>logged := (if LogRequests s \<and> LogfSet s then logged s @ [(msg, args)]
                  else logged s)\<rparr>"
  by (simp add: vlogf_def logf_def)

lemma init_fields [simp]:
  "Targets (init s) = Targets s" "LogfSet (init s) = LogfSet s"
  "LogRequests (init s) = LogRequests s"
  "disk (init s) = disk s" "bucket (init s) = bucket s" "logged (init s) = logged s"
  "calls (init s) = calls s" "Metrics (init s) = Metrics s"
  "reqReceived (init s) = reqReceived s" "reqMemoryHit (init s) = reqMemoryHit s"
  "reqLocalHit (init s) = reqLocalHit s" "reqLocalMiss (init s) = reqLocalMiss s"
  "reqFaultHit (init s) = reqFaultHit s" "reqFaultMiss (init s) = reqFaultMiss s"
  "reqForward (init s) = reqForward s" "rspSave (init s) = rspSave s"
  "rspSaveMem (init s) = rspSaveMem s" "rspSaveError (init s) = rspSaveError s"
  "rspSaveBytes (init s) = rspSaveBytes s" "rspPush (init s) = rspPush s"
  "rspPushError (init s) = rspPushError s" "rspPushBytes (init s) = rspPushBytes s"
  "rspNotCached (init s) = rspNotCached s"
  by (simp_all add: init_def Metrics_def)


text \<open>The two ways out of the target check.\<close>

lemma ServeHTTP_reject:
  "\<not> hostMatchesTarget (Host r) (Targets s) \<Longrightarrow>
   ServeHTTP env s w r =
     (Returned, http_Error w ''Bad Gateway'' 502,
      logf ((init s)\<lparr>reqReceived := reqReceived s + 1\<rparr>)
        ''reject proxy request for non-target %q'' [S (Host r)])"
  by (simp add: ServeHTTP_def Let_def StatusText_def StatusBadGateway_def)

lemma ServeHTTP_accept:
  "hostMatchesTarget (Host r) (Targets s) \<Longrightarrow>
   ServeHTTP env s w r =
     (case (if canCacheRequest r
            then lookupCache env
                   (vlogf ((init s)\<lparr>reqReceived := reqReceived s + 1\<rparr>)
                      ''rp B U:%q H:%s C:%v''
                      [S (URL_String env (reqURL r)), S (requestHash env r),
                       B (canCacheRequest r)])
                   w (requestHash env r)
            else (None,
                  vlogf ((init s)\<lparr>reqReceived := reqReceived s + 1\<rparr>)
                    ''rp B U:%q H:%s C:%v''
                    [S (URL_String env (reqURL r)), S (requestHash env r),
                     B (canCacheRequest r)])) of
        (Some w1, s4) \<Rightarrow> (Returned, w1, s4)
      | (None, s4) \<Rightarrow> forward env s4 w r (requestHash env r) (canCacheRequest r))"
  unfolding requestHash_def by (simp add: ServeHTTP_def Let_def)

text \<open>Forwarding a request that cannot be cached: no response hook, no update.\<close>

lemma forward_uncacheable:
  "forward env s w r h False =
     (case rewriteRequest env \<lparr>In = r, Out = r\<rparr> of
        Inl p \<Rightarrow> (Panicked p, w, s\<lparr>reqForward := reqForward s + 1\<rparr>)
      | Inr pr \<Rightarrow>
          (Returned,
           (case roundTrip env (Out pr) of
              None \<Rightarrow> WriteHeader w 502
            | Some rsp \<Rightarrow>
                Write (WriteHeader (w\<lparr>wHeader := addValues (wHeader w) (rspHeader rsp)\<rparr>)
                         (StatusCode rsp)) (Body rsp)),
           s\<lparr>reqForward := reqForward s + 1, calls := calls s @ [RoundTrip (Out pr)]\<rparr>))"
  by (simp add: forward_def ReverseProxy_ServeHTTP_def Let_def updateCache_def
      StatusBadGateway_def split: sum.splits option.splits)

lemma elementMaxAge_range:
  "elementMaxAge v = Some sec \<Longrightarrow> - (2 ^ 63) \<le> sec \<and> sec < 2 ^ 63"
  by (cases "strings_Cut (strings_TrimSpace v) CHR ''=''")
     (auto simp: elementMaxAge_def split: if_splits dest: strconv_Atoi_range)

lemma maxAgeValues_member:
  "sec \<in> set (maxAgeValues vs) \<Longrightarrow> \<exists>v \<in> set vs. elementMaxAge v = Some sec"
  by (auto simp: maxAgeValues_def split: option.splits)

subsection \<open>The cacheability of a response\<close>

text \<open>
  Claim C1.  \<open>canCacheResponse\<close> returns true exactly when the status is 200, the
  parsed \<open>Cache-Control\<close> of the response has no \<open>no-store\<close>, and it has
  \<open>immutable\<close>, or it has \<open>must-revalidate\<close> and its parsed max-age is strictly
  greater than 60 days, that is 1440 hours; the threshold is 5184000 seconds in
  nanoseconds and does not overflow.
\<close>

theorem canCacheResponse_iff:
  "(canCacheResponse rsp \<longleftrightarrow>
      StatusCode rsp = 200 \<and>
      ''no-store'' \<notin> Keys (parseCacheControl (Header_Get (rspHeader rsp) ''Cache-Control'')) \<and>
      (''immutable'' \<in> Keys (parseCacheControl (Header_Get (rspHeader rsp) ''Cache-Control'')) \<or>
       ''must-revalidate''
          \<in> Keys (parseCacheControl (Header_Get (rspHeader rsp) ''Cache-Control'')) \<and>
       sint (1440 * Hour)
          < sint (MaxAge (parseCacheControl (Header_Get (rspHeader rsp) ''Cache-Control''))))) \<and>
   sint (1440 * Hour) = 60 * 24 * 3600 * 1000000000"
  by (simp add: canCacheResponse_def StatusOK_def Let_def duration_defs)

theorem canCacheResponse_iff_witness:
  "canCacheResponse
     \<lparr>StatusCode = 200,
      rspHeader = [''Cache-Control'' \<mapsto> [''must-revalidate, max-age=5184001'']],
      Body = ''hello''\<rparr> \<and>
   \<not> canCacheResponse
     \<lparr>StatusCode = 200,
      rspHeader = [''Cache-Control'' \<mapsto> [''must-revalidate, max-age=5184000'']],
      Body = ''hello''\<rparr>"
  using canCacheResponse_iff
          [of "\<lparr>StatusCode = 200,
                rspHeader = [''Cache-Control'' \<mapsto> [''must-revalidate, max-age=5184001'']],
                Body = ''hello''\<rparr>"]
        canCacheResponse_iff
          [of "\<lparr>StatusCode = 200,
                rspHeader = [''Cache-Control'' \<mapsto> [''must-revalidate, max-age=5184000'']],
                Body = ''hello''\<rparr>"]
  by (simp add: parse_defs duration_defs header_defs)

text \<open>
  Claim C4.  \<open>canMemoryCache\<close> returns \<open>(0, false)\<close> when the status is not 200 or
  the parsed \<open>Cache-Control\<close> has \<open>no-store\<close> or \<open>no-cache\<close>; otherwise it returns
  the parsed max-age and \<open>true\<close> exactly when that max-age is strictly between
  zero and one hour, and \<open>(0, false)\<close> in every other case.
\<close>

theorem canMemoryCache_cases:
  "canMemoryCache rsp =
     (if StatusCode rsp \<noteq> 200 \<or>
         ''no-store'' \<in> Keys (parseCacheControl (Header_Get (rspHeader rsp) ''Cache-Control'')) \<or>
         ''no-cache'' \<in> Keys (parseCacheControl (Header_Get (rspHeader rsp) ''Cache-Control''))
      then (0, False)
      else if 0 < sint (MaxAge (parseCacheControl (Header_Get (rspHeader rsp) ''Cache-Control''))) \<and>
              sint (MaxAge (parseCacheControl (Header_Get (rspHeader rsp) ''Cache-Control'')))
                < 3600 * 1000000000
      then (MaxAge (parseCacheControl (Header_Get (rspHeader rsp) ''Cache-Control'')), True)
      else (0, False))"
  by (simp add: canMemoryCache_def StatusOK_def Let_def duration_defs)

theorem canMemoryCache_cases_witness:
  "canMemoryCache
     \<lparr>StatusCode = 200, rspHeader = [''Cache-Control'' \<mapsto> [''max-age=30'']], Body = ''v1''\<rparr>
     = (30 * Second, True) \<and>
   canMemoryCache
     \<lparr>StatusCode = 200, rspHeader = [''Cache-Control'' \<mapsto> [''max-age=3600'']], Body = ''v1''\<rparr>
     = (0, False) \<and>
   canMemoryCache
     \<lparr>StatusCode = 200, rspHeader = [''Cache-Control'' \<mapsto> [''no-cache, max-age=30'']],
      Body = ''v1''\<rparr>
     = (0, False)"
  unfolding canMemoryCache_cases
  by (simp add: parse_defs duration_defs header_defs)

subsection \<open>The parser\<close>

text \<open>
  Claim C3, as stated, fails: the value of \<open>max-age\<close> is parsed by \<open>strconv.Atoi\<close>,
  which accepts a sign, so \<open>max-age=-5\<close> gives a negative duration; and an
  element \<open>max-age=x\<close> that does not parse leaves the duration of an earlier
  element in place, here five seconds and not zero.
\<close>

theorem parseCacheControl_maxage_counterexample:
  "sint (MaxAge (parseCacheControl ''max-age=-5'')) = - 5000000000 \<and>
   elementMaxAge ''max-age=x'' = None \<and>
   MaxAge (parseCacheControl ''max-age=5,max-age=x'') = 5 * Second \<and>
   5 * Second \<noteq> (0 :: Duration) \<and>
   ''max-age'' \<in> Keys (parseCacheControl ''max-age=5,max-age=x'')"
  by (simp add: parse_defs duration_defs elementMaxAge_def)

text \<open>
  Claim C3, amended.  The keys of \<open>parseCacheControl s\<close> are the keys of the
  trimmed elements of \<open>s\<close> split on commas.  The duration is that of the last
  element \<open>max-age=<value>\<close> whose value \<open>strconv.Atoi\<close> accepts, a signed 64-bit
  number of seconds, multiplied by one second in \<open>int64\<close>; it is zero when there is
  no such element.  An element that gives no number leaves the duration as it
  was, and its key is recorded all the same.
\<close>

theorem parseCacheControl_elements:
  "Keys (parseCacheControl s) = elementKey ` set (strings_Split s CHR '','') \<and>
   MaxAge (parseCacheControl s) =
     (if maxAgeValues (strings_Split s CHR '','') = [] then 0
      else word_of_int (last (maxAgeValues (strings_Split s CHR '','')) ) * Second) \<and>
   (\<forall>sec \<in> set (maxAgeValues (strings_Split s CHR '','')). - (2 ^ 63) \<le> sec \<and> sec < 2 ^ 63) \<and>
   (\<forall>out v. elementMaxAge v = None \<longrightarrow>
      MaxAge (parseElement out v) = MaxAge out \<and> elementKey v \<in> Keys (parseElement out v))"
proof -
  have "\<And>sec. sec \<in> set (maxAgeValues (strings_Split s CHR '','')) \<Longrightarrow>
          - (2 ^ 63) \<le> sec \<and> sec < 2 ^ 63"
    using maxAgeValues_member elementMaxAge_range by blast
  then show ?thesis
    by (simp add: parseCacheControl_def Keys_parseElements MaxAge_parseElements
        cacheControl_zero_def Keys_parseElement MaxAge_parseElement)
qed

theorem parseCacheControl_elements_witness:
  "Keys (parseCacheControl ''max-age=5, max-age=x ,no-store'') = {''max-age'', ''no-store''} \<and>
   MaxAge (parseCacheControl ''max-age=5, max-age=x ,no-store'') = 5 * Second \<and>
   sint (MaxAge (parseCacheControl ''max-age=-5'')) = - 5000000000"
  using parseCacheControl_elements [of "''max-age=5, max-age=x ,no-store''"]
        parseCacheControl_elements [of "''max-age=-5''"]
  by (simp add: elementKey_def maxAgeValues_def elementMaxAge_def strings_Cut_def
      strings_TrimSpace_def TrimRightSpace_def TrimLeftSpace_def runeWidth_def spaceRunes_def
      strconv_Atoi_def isDigit_def digitsValue_def duration_defs insert_commute)

subsection \<open>The target check\<close>

text \<open>
  Claim C9.  \<open>hostMatchesTarget\<close> is true exactly when the host is equal, as a
  byte string, to some element of the targets: a host with a port suffix or in
  another letter case does not match, and a request with the host
  \<open>host.example.com:8080\<close> to a server whose only target is \<open>host.example.com\<close> is
  answered 502 without any call to a cache tier or to the origin.
\<close>

theorem hostMatchesTarget_exact:
  "(hostMatchesTarget host targets \<longleftrightarrow> (\<exists>t \<in> set targets. t = host)) \<and>
   \<not> hostMatchesTarget ''host.example.com:8080'' [''host.example.com''] \<and>
   \<not> hostMatchesTarget ''Host.Example.COM'' [''host.example.com''] \<and>
   (Targets s = [''host.example.com''] \<and> Host r = ''host.example.com:8080'' \<longrightarrow>
      outcomeOf (ServeHTTP env s newResponseWriter r) = Returned \<and>
      wStatus (responseOf (ServeHTTP env s newResponseWriter r)) = Some 502 \<and>
      calls (serverOf (ServeHTTP env s newResponseWriter r)) = calls s)"
proof -
  have "\<not> hostMatchesTarget ''host.example.com:8080'' [''host.example.com'']"
    by (simp add: hostMatchesTarget_def)
  then have "Targets s = [''host.example.com''] \<and> Host r = ''host.example.com:8080'' \<longrightarrow>
      outcomeOf (ServeHTTP env s newResponseWriter r) = Returned \<and>
      wStatus (responseOf (ServeHTTP env s newResponseWriter r)) = Some 502 \<and>
      calls (serverOf (ServeHTTP env s newResponseWriter r)) = calls s"
    by (simp add: ServeHTTP_reject result_defs writer_defs logf_alt Let_def)
  then show ?thesis
    by (simp add: hostMatchesTarget_def slices_Contains_iff)
qed

theorem hostMatchesTarget_exact_witness:
  "\<not> hostMatchesTarget (Host examplePortRequest) (Targets examplePortServer) \<and>
   wStatus (responseOf (ServeHTTP exampleEnv examplePortServer newResponseWriter examplePortRequest))
     = Some 502"
  using hostMatchesTarget_exact [of "Host examplePortRequest" "Targets examplePortServer"
          examplePortServer examplePortRequest exampleEnv]
  by (simp add: examplePortRequest_def examplePortServer_def exampleServer_def exampleGet_def)

text \<open>
  Claim C8.  A request whose host is not a target is answered 502 Bad Gateway
  and nothing else happens: no call to a cache tier or to the origin, the three
  tiers and the task list as they were, and among the counters only
  \<open>req_received\<close> changes, by one.
\<close>

theorem ServeHTTP_non_target:
  assumes "\<not> hostMatchesTarget (Host r) (Targets s)"
  shows "case ServeHTTP env s w r of
           (out, w', s') \<Rightarrow>
             out = Returned \<and>
             w' = http_Error w ''Bad Gateway'' 502 \<and>
             (wStatus w = None \<longrightarrow>
                wStatus w' = Some 502 \<and> wBody w' = wBody w @ ''Bad Gateway'' @ [CHR 0x0A]) \<and>
             calls s' = calls s \<and>
             mcache s' = mcache (init s) \<and> expire s' = expire (init s) \<and>
             tasks s' = tasks (init s) \<and>
             disk s' = disk s \<and> bucket s' = bucket s \<and>
             Metrics s' = (''req_received'', reqReceived s + 1) # tl (Metrics s)"
  using assms
  by (simp add: ServeHTTP_reject logf_alt http_Error_def Write_def WriteHeader_def Let_def
      Metrics_def)

theorem ServeHTTP_non_target_witness:
  "\<not> hostMatchesTarget (Host examplePostOther) (Targets exampleServer) \<and>
   outcomeOf (ServeHTTP exampleEnv exampleServer newResponseWriter examplePostOther) = Returned \<and>
   wStatus (responseOf (ServeHTTP exampleEnv exampleServer newResponseWriter examplePostOther))
     = Some 502 \<and>
   calls (serverOf (ServeHTTP exampleEnv exampleServer newResponseWriter examplePostOther)) = [] \<and>
   Metrics (serverOf (ServeHTTP exampleEnv exampleServer newResponseWriter examplePostOther))
     = (''req_received'', 1) # tl (Metrics exampleServer)"
proof -
  have h: "\<not> hostMatchesTarget (Host examplePostOther) (Targets exampleServer)"
    by (simp add: hostMatchesTarget_def example_defs)
  show ?thesis
    using h ServeHTTP_non_target [OF h, where env = exampleEnv and w = newResponseWriter]
    by (simp add: result_defs newResponseWriter_def exampleServer_def split: prod.splits)
qed

subsection \<open>The request rewriter\<close>

text \<open>
  Claim C10.  \<open>rewriteRequest\<close> drops the error of \<open>url.ParseRequestURI\<close>: it
  dereferences a nil URL exactly when the request URI of the inbound request
  does not parse, which happens for the empty request URI whatever the
  grammar is; when the request URI parses there is no panic, and the outbound
  request gets the parsed URL with the inbound host and the scheme \<open>https\<close> by
  default.
\<close>

theorem rewriteRequest_nil_dereference:
  "(rewriteRequest env pr = Inl NilPointerDereference \<longleftrightarrow>
      url_ParseRequestURI env (RequestURI (In pr)) = None) \<and>
   url_ParseRequestURI env [] = None \<and>
   rewriteRequest env (pr\<lparr>In := (In pr)\<lparr>RequestURI := []\<rparr>\<rparr>) = Inl NilPointerDereference \<and>
   (\<forall>u. url_ParseRequestURI env (RequestURI (In pr)) = Some u \<longrightarrow>
      (\<exists>pr'. rewriteRequest env pr = Inr pr' \<and>
             In pr' = In pr \<and>
             Host (Out pr') = Host (In pr) \<and>
             reqURL (Out pr') =
               u\<lparr>URL_Host := Host (In pr),
                  Scheme := (if Scheme u = [] then ''https'' else Scheme u)\<rparr>))"
  by (auto simp: rewriteRequest_def url_ParseRequestURI_def Let_def split: option.splits)

theorem rewriteRequest_nil_dereference_witness:
  "rewriteRequest exampleEnv \<lparr>In = exampleGet\<lparr>RequestURI := ''a b''\<rparr>, Out = exampleGet\<rparr>
     = Inl NilPointerDereference \<and>
   rewriteRequest exampleEnv \<lparr>In = exampleGet, Out = exampleGet\<rparr> \<noteq> Inl NilPointerDereference"
  using rewriteRequest_nil_dereference
          [of exampleEnv "\<lparr>In = exampleGet\<lparr>RequestURI := ''a b''\<rparr>, Out = exampleGet\<rparr>"]
        rewriteRequest_nil_dereference [of exampleEnv "\<lparr>In = exampleGet, Out = exampleGet\<rparr>"]
  by (simp add: url_ParseRequestURI_def isCTLByte_def exampleEnv_def exampleGet_def)

subsection \<open>Requests that cannot be cached\<close>




subsection \<open>Hits and misses of the tiers\<close>

lemma foldl_Header_Add:
  "(foldl (\<lambda>h v. Header_Add h k v) dst vals) k =
     (if vals = [] then dst k
      else Some ((case dst k of None \<Rightarrow> [] | Some xs \<Rightarrow> xs) @ vals))"
  by (induction vals arbitrary: dst) (auto simp: Header_Add_def split: option.splits)

lemma addValues_apply:
  "addValues dst src k =
     (case src k of
        None \<Rightarrow> dst k
      | Some vals \<Rightarrow>
          (if vals = [] then dst k
           else Some ((case dst k of None \<Rightarrow> [] | Some xs \<Rightarrow> xs) @ vals)))"
  by (simp add: addValues_def foldl_Header_Add split: option.splits)

lemma lookupCache_miss:
  assumes "map_of (mcache s) h = None"
      and "localLoadFails env h \<or> disk s h = None"
      and "remoteLoadFails env h \<or> bucket s h = None"
  shows "lookupCache env s w h =
           (None,
            vlogf (s\<lparr>calls := calls s @ [LoadMemory h, LoadLocal h, LoadS3 h],
                     reqLocalMiss := reqLocalMiss s + 1,
                     reqFaultMiss := reqFaultMiss s + 1\<rparr>)
              ''rp - H:%s miss'' [S h])"
  using assms
  by (auto simp: lookupCache_def cacheLoadMemory_def cacheLoadLocal_def cacheLoadS3_def Let_def
      vlogf_alt)

lemma lookupCache_remote_hit:
  assumes "map_of (mcache s) h = None"
      and "localLoadFails env h \<or> disk s h = None"
      and "\<not> remoteLoadFails env h" and "bucket s h = Some (hdr, data)"
  shows "lookupCache env s w h =
           (Some (writeCachedResponse w (setXCacheInfo hdr ''hit, remote'' h) data),
            vlogf
              (let s5 = s\<lparr>calls := calls s @ [LoadMemory h, LoadLocal h, LoadS3 h, StoreLocal h],
                           reqLocalMiss := reqLocalMiss s + 1,
                           reqFaultHit := reqFaultHit s + 1\<rparr>
               in if localStoreFails env h
                  then logf s5 ''update %q local: %v'' [S h, E Failed]
                  else s5\<lparr>disk := (disk s)(h \<mapsto> (savedHeaders env hdr, data))\<rparr>)
              ''rp E H:%s hit S3 B:%d (%v elapsed)'' [S h, N (length data)])"
  using assms
  by (auto simp: lookupCache_def cacheLoadMemory_def cacheLoadLocal_def cacheLoadS3_def
      cacheStoreLocal_def Let_def vlogf_alt logf_alt)

text \<open>
  Claim C7.  A request to a target that can be cached, that misses the memory
  cache and the local cache and finds its entry in the bucket: \<open>req_fault_hit\<close> is
  incremented, the entry is stored in the local cache within the call (the
  store is among the calls and no task is queued), the response is the
  entry's headers with \<open>X-Cache: hit, remote\<close> and \<open>X-Cache-Id\<close> set to the hash, and
  the entry's body; when the local store fails the failure is passed to
  \<open>Logf\<close>, the disk stays as it was and the response is the same.
\<close>

theorem ServeHTTP_remote_hit:
  assumes host: "hostMatchesTarget (Host r) (Targets s)"
      and cc: "canCacheRequest r"
      and mem: "map_of (mcache (init s)) (requestHash env r) = None"
      and loc: "localLoadFails env (requestHash env r) \<or> disk s (requestHash env r) = None"
      and rem: "\<not> remoteLoadFails env (requestHash env r)"
      and obj: "bucket s (requestHash env r) = Some (hdr, data)"
  shows "case ServeHTTP env s w r of
           (out, w', s') \<Rightarrow>
             out = Returned \<and>
             reqFaultHit s' = reqFaultHit s + 1 \<and>
             reqForward s' = reqForward s \<and>
             calls s' = calls s @
               [LoadMemory (requestHash env r), LoadLocal (requestHash env r),
                LoadS3 (requestHash env r), StoreLocal (requestHash env r)] \<and>
             disk s' =
               (if localStoreFails env (requestHash env r) then disk s
                else (disk s)(requestHash env r \<mapsto> (savedHeaders env hdr, data))) \<and>
             (localStoreFails env (requestHash env r) \<and> LogfSet s \<longrightarrow>
                (''update %q local: %v'', [S (requestHash env r), E Failed]) \<in> set (logged s')) \<and>
             tasks s' = tasks (init s) \<and> bucket s' = bucket s \<and>
             w' = writeCachedResponse w (setXCacheInfo hdr ''hit, remote'' (requestHash env r)) data \<and>
             (wHeader w = Map.empty \<and> wStatus w = None \<longrightarrow>
                wStatus w' = Some 200 \<and>
                wBody w' = wBody w @ data \<and>
                wHeader w' ''X-Cache'' = Some [''hit, remote''] \<and>
                (requestHash env r \<noteq> [] \<longrightarrow>
                   wHeader w' ''X-Cache-Id'' = Some [requestHash env r]) \<and>
                (\<forall>k. k \<noteq> ''X-Cache'' \<and> k \<noteq> ''X-Cache-Id'' \<longrightarrow>
                   wHeader w' k = (if hdr k = Some [] then None else hdr k)))"
proof -
  let ?h = "requestHash env r"
  let ?s3 = "vlogf ((init s)\<lparr>reqReceived := reqReceived s + 1\<rparr>) ''rp B U:%q H:%s C:%v''
               [S (URL_String env (reqURL r)), S ?h, B True]"
  have m: "map_of (mcache ?s3) ?h = None" using mem by (simp add: vlogf_alt)
  have l: "localLoadFails env ?h \<or> disk ?s3 ?h = None" using loc by (simp add: vlogf_alt)
  have b: "bucket ?s3 ?h = Some (hdr, data)" using obj by (simp add: vlogf_alt)
  show ?thesis
    using host cc
    by (simp add: ServeHTTP_accept lookupCache_remote_hit [OF m l rem b] Let_def)
       (auto simp: vlogf_alt logf_alt writeCachedResponse_def Write_def WriteHeader_def
          setXCacheInfo_def Header_Set_def addValues_apply Let_def split: option.splits)
qed

theorem ServeHTTP_remote_hit_witness:
  "wHeader (responseOf (ServeHTTP exampleEnv exampleFaultServer newResponseWriter exampleGet))
      ''X-Cache'' = Some [''hit, remote''] \<and>
   wHeader (responseOf (ServeHTTP exampleEnv exampleFaultServer newResponseWriter exampleGet))
      ''X-Cache-Id'' = Some [''http://x.example/a''] \<and>
   wBody (responseOf (ServeHTTP exampleEnv exampleFaultServer newResponseWriter exampleGet))
      = ''hello'' \<and>
   reqFaultHit (serverOf (ServeHTTP exampleEnv exampleFaultServer newResponseWriter exampleGet))
      = 1 \<and>
   disk (serverOf (ServeHTTP exampleEnv exampleFaultServer newResponseWriter exampleGet))
      ''http://x.example/a'' = Some exampleEntry \<and>
   responseOf (ServeHTTP exampleFailingEnv exampleFaultServer newResponseWriter exampleGet)
      = responseOf (ServeHTTP exampleEnv exampleFaultServer newResponseWriter exampleGet) \<and>
   disk (serverOf (ServeHTTP exampleFailingEnv exampleFaultServer newResponseWriter exampleGet))
      ''http://x.example/a'' = None \<and>
   (''update %q local: %v'', [S ''http://x.example/a'', E Failed])
      \<in> set (logged (serverOf
                 (ServeHTTP exampleFailingEnv exampleFaultServer newResponseWriter exampleGet)))"
proof -
  have host: "hostMatchesTarget (Host exampleGet) (Targets exampleFaultServer)"
    by (simp add: hostMatchesTarget_def example_defs)
  have cc: "canCacheRequest exampleGet"
    by (simp add: canCacheRequest_def example_defs parse_defs header_defs)
  have h1: "requestHash exampleEnv exampleGet = ''http://x.example/a''"
    by (simp add: requestHash_def hashRequestURL_def example_defs)
  have h2: "requestHash exampleFailingEnv exampleGet = ''http://x.example/a''"
    by (simp add: requestHash_def hashRequestURL_def example_defs)
  have mem1: "map_of (mcache (init exampleFaultServer)) (requestHash exampleEnv exampleGet) = None"
    by (simp add: init_def example_defs)
  have mem2: "map_of (mcache (init exampleFaultServer)) (requestHash exampleFailingEnv exampleGet) = None"
    by (simp add: init_def example_defs)
  have loc1: "localLoadFails exampleEnv (requestHash exampleEnv exampleGet) \<or>
              disk exampleFaultServer (requestHash exampleEnv exampleGet) = None"
    by (simp add: example_defs)
  have loc2: "localLoadFails exampleFailingEnv (requestHash exampleFailingEnv exampleGet) \<or>
              disk exampleFaultServer (requestHash exampleFailingEnv exampleGet) = None"
    by (simp add: example_defs)
  have rem1: "\<not> remoteLoadFails exampleEnv (requestHash exampleEnv exampleGet)"
    by (simp add: example_defs)
  have rem2: "\<not> remoteLoadFails exampleFailingEnv (requestHash exampleFailingEnv exampleGet)"
    by (simp add: example_defs)
  have obj1: "bucket exampleFaultServer (requestHash exampleEnv exampleGet)
                = Some ([''Content-Type'' \<mapsto> [''text/plain'']], ''hello'')"
    unfolding h1 by (simp add: example_defs)
  have obj2: "bucket exampleFaultServer (requestHash exampleFailingEnv exampleGet)
                = Some ([''Content-Type'' \<mapsto> [''text/plain'']], ''hello'')"
    unfolding h2 by (simp add: example_defs)
  note a = ServeHTTP_remote_hit [OF host cc mem1 loc1 rem1 obj1, where w = newResponseWriter]
  note b = ServeHTTP_remote_hit [OF host cc mem2 loc2 rem2 obj2, where w = newResponseWriter]
  have fails: "localStoreFails exampleFailingEnv ''http://x.example/a''"
    "\<not> localStoreFails exampleEnv ''http://x.example/a''"
    "\<And>hh. savedHeaders exampleEnv hh = hh"
    by (simp_all add: example_defs savedHeaders_def)
  have srv: "LogfSet exampleFaultServer" "logged exampleFaultServer = []"
     "disk exampleFaultServer = Map.empty" "reqFaultHit exampleFaultServer = 0"
     "LogRequests exampleFaultServer = False"
    by (simp_all add: example_defs)
  show ?thesis
    using a b
    by (simp add: result_defs h1 h2 fails srv newResponseWriter_def exampleEntry_def split: prod.splits)
qed

subsection \<open>Storing a durably cacheable response\<close>

lemma modifyResponse_durable:
  "canCacheResponse rsp \<Longrightarrow>
   modifyResponse h s rsp =
     (rsp\<lparr>rspHeader := setXCacheInfo (rspHeader rsp) ''fetch, cached'' h\<rparr>, UpdateLocal, s)"
  by (simp add: modifyResponse_def split: prod.splits)

lemma forward_durable:
  assumes "rewriteRequest env \<lparr>In = r, Out = r\<rparr> = Inr pr"
      and "roundTrip env (Out pr) = Some rsp"
      and "canCacheResponse rsp"
  shows "forward env s w r h True =
           (Returned,
            Write (WriteHeader
                     (w\<lparr>wHeader := addValues (wHeader w)
                                      (setXCacheInfo (rspHeader rsp) ''fetch, cached'' h)\<rparr>)
                     (StatusCode rsp))
                  (Body rsp),
            vlogf
              (let s1 = s\<lparr>reqForward := reqForward s + 1,
                           calls := calls s @ [RoundTrip (Out pr), StoreLocal h]\<rparr>
               in if localStoreFails env h
                  then logf (s1\<lparr>rspSaveError := rspSaveError s + 1\<rparr>)
                         ''save %q to cache: %v'' [S h, E Failed]
                  else s1\<lparr>disk := (disk s)(h \<mapsto>
                                     (savedHeaders env
                                        (setXCacheInfo (rspHeader rsp) ''fetch, cached'' h),
                                      Body rsp)),
                          rspSave := rspSave s + 1,
                          rspSaveBytes := rspSaveBytes s + of_nat (length (Body rsp)),
                          calls := calls s @ [RoundTrip (Out pr), StoreLocal h, StartPush h],
                          tasks := tasks s @
                            [cacheStoreS3 h (setXCacheInfo (rspHeader rsp) ''fetch, cached'' h)
                               (Body rsp)]\<rparr>)
              ''rp E H:%s fetch RC:yes B:%d (%v elapsed)'' [S h, N (length (Body rsp))])"
  using assms
  by (simp add: forward_def ReverseProxy_ServeHTTP_def modifyResponse_durable updateCache_def
      cacheStoreLocal_def start_def cacheStoreS3_def Let_def logf_alt vlogf_alt)

text \<open>
  Claim C6.  A request to a target that can be cached, misses the three tiers
  and gets a durably cacheable response from the origin.  The client receives
  the response of the origin with \<open>X-Cache: fetch, cached\<close> whether the local store
  fails or not.  When the local store fails, \<open>rsp_save_error\<close> is incremented, no
  task is handed to the pool and the disk is unchanged.  When it succeeds,
  \<open>rsp_save\<close> is incremented, the length of the body is added to \<open>rsp_save_bytes\<close>,
  and then the push of this hash to the bucket is handed to the pool.  The
  call itself never writes the bucket: the task for a hash is queued only
  after the local store of that hash has succeeded.
\<close>

theorem ServeHTTP_durable_store:
  assumes host: "hostMatchesTarget (Host r) (Targets s)"
      and cc: "canCacheRequest r"
      and mem: "map_of (mcache (init s)) (requestHash env r) = None"
      and loc: "localLoadFails env (requestHash env r) \<or> disk s (requestHash env r) = None"
      and rem: "remoteLoadFails env (requestHash env r) \<or> bucket s (requestHash env r) = None"
      and rewrite: "rewriteRequest env \<lparr>In = r, Out = r\<rparr> = Inr pr"
      and origin: "roundTrip env (Out pr) = Some rsp"
      and durable: "canCacheResponse rsp"
  shows "case ServeHTTP env s w r of
           (out, w', s') \<Rightarrow>
             out = Returned \<and>
             w' = Write (WriteHeader
                           (w\<lparr>wHeader := addValues (wHeader w)
                                 (setXCacheInfo (rspHeader rsp) ''fetch, cached''
                                    (requestHash env r))\<rparr>)
                           (StatusCode rsp))
                        (Body rsp) \<and>
             (wHeader w = Map.empty \<and> wStatus w = None \<longrightarrow>
                wStatus w' = Some 200 \<and> wBody w' = wBody w @ Body rsp \<and>
                wHeader w' ''X-Cache'' = Some [''fetch, cached'']) \<and>
             bucket s' = bucket s \<and>
             rspPush s' = rspPush s \<and>
             (if localStoreFails env (requestHash env r)
              then rspSaveError s' = rspSaveError s + 1 \<and>
                   rspSave s' = rspSave s \<and> rspSaveBytes s' = rspSaveBytes s \<and>
                   tasks s' = tasks (init s) \<and>
                   disk s' = disk s \<and>
                   calls s' = calls s @
                     [LoadMemory (requestHash env r), LoadLocal (requestHash env r),
                      LoadS3 (requestHash env r), RoundTrip (Out pr),
                      StoreLocal (requestHash env r)] \<and>
                   (LogfSet s \<longrightarrow>
                      (''save %q to cache: %v'', [S (requestHash env r), E Failed])
                        \<in> set (logged s'))
              else rspSave s' = rspSave s + 1 \<and>
                   rspSaveBytes s' = rspSaveBytes s + of_nat (length (Body rsp)) \<and>
                   rspSaveError s' = rspSaveError s \<and>
                   disk s' = (disk s)(requestHash env r \<mapsto>
                     (savedHeaders env
                        (setXCacheInfo (rspHeader rsp) ''fetch, cached'' (requestHash env r)),
                      Body rsp)) \<and>
                   tasks s' = tasks (init s) @
                     [cacheStoreS3 (requestHash env r)
                        (setXCacheInfo (rspHeader rsp) ''fetch, cached'' (requestHash env r))
                        (Body rsp)] \<and>
                   calls s' = calls s @
                     [LoadMemory (requestHash env r), LoadLocal (requestHash env r),
                      LoadS3 (requestHash env r), RoundTrip (Out pr),
                      StoreLocal (requestHash env r), StartPush (requestHash env r)])"
proof -
  let ?h = "requestHash env r"
  let ?s3 = "vlogf ((init s)\<lparr>reqReceived := reqReceived s + 1\<rparr>) ''rp B U:%q H:%s C:%v''
               [S (URL_String env (reqURL r)), S ?h, B True]"
  have m: "map_of (mcache ?s3) ?h = None" using mem by (simp add: vlogf_alt)
  have l: "localLoadFails env ?h \<or> disk ?s3 ?h = None" using loc by (simp add: vlogf_alt)
  have b: "remoteLoadFails env ?h \<or> bucket ?s3 ?h = None" using rem by (simp add: vlogf_alt)
  have ok: "StatusCode rsp = 200"
    using durable by (simp add: canCacheResponse_def StatusOK_def split: if_splits)
  have hdr: "wHeader w = Map.empty \<Longrightarrow>
      addValues (wHeader w) (setXCacheInfo (rspHeader rsp) ''fetch, cached'' ?h) ''X-Cache''
        = Some [''fetch, cached'']"
    by (simp add: setXCacheInfo_def Header_Set_def addValues_apply Let_def)
  have eq: "ServeHTTP env s w r = forward env
              (vlogf (?s3\<lparr>calls := calls ?s3 @ [LoadMemory ?h, LoadLocal ?h, LoadS3 ?h],
                     reqLocalMiss := reqLocalMiss ?s3 + 1,
                     reqFaultMiss := reqFaultMiss ?s3 + 1\<rparr>)
              ''rp - H:%s miss'' [S ?h]) w r ?h True"
    using host cc by (simp add: ServeHTTP_accept lookupCache_miss [OF m l b])
  show ?thesis
  proof (cases "localStoreFails env ?h")
    case True
    then show ?thesis
      unfolding eq forward_durable [OF rewrite origin durable]
      using ok hdr by (simp add: vlogf_alt logf_alt Write_def WriteHeader_def Let_def)
  next
    case False
    then show ?thesis
      unfolding eq forward_durable [OF rewrite origin durable]
      using ok hdr by (simp add: vlogf_alt logf_alt Write_def WriteHeader_def Let_def)
  qed
qed

theorem ServeHTTP_durable_store_witness:
  "rspSave (serverOf (ServeHTTP exampleEnv exampleServer newResponseWriter exampleGet)) = 1 \<and>
   rspSaveBytes (serverOf (ServeHTTP exampleEnv exampleServer newResponseWriter exampleGet)) = 5 \<and>
   rspSaveError (serverOf (ServeHTTP exampleEnv exampleServer newResponseWriter exampleGet)) = 0 \<and>
   map pHash (tasks (serverOf (ServeHTTP exampleEnv exampleServer newResponseWriter exampleGet)))
     = [''http://x.example/a''] \<and>
   wBody (responseOf (ServeHTTP exampleEnv exampleServer newResponseWriter exampleGet))
     = ''hello'' \<and>
   rspSaveError (serverOf (ServeHTTP exampleFailingEnv exampleServer newResponseWriter exampleGet))
     = 1 \<and>
   rspSave (serverOf (ServeHTTP exampleFailingEnv exampleServer newResponseWriter exampleGet)) = 0 \<and>
   tasks (serverOf (ServeHTTP exampleFailingEnv exampleServer newResponseWriter exampleGet)) = [] \<and>
   responseOf (ServeHTTP exampleFailingEnv exampleServer newResponseWriter exampleGet)
     = responseOf (ServeHTTP exampleEnv exampleServer newResponseWriter exampleGet)"
proof -
  have host: "hostMatchesTarget (Host exampleGet) (Targets exampleServer)"
    by (simp add: hostMatchesTarget_def example_defs)
  have cc: "canCacheRequest exampleGet"
    by (simp add: canCacheRequest_def example_defs parse_defs header_defs)
  have h1: "requestHash exampleEnv exampleGet = ''http://x.example/a''"
    by (simp add: requestHash_def hashRequestURL_def example_defs)
  have h2: "requestHash exampleFailingEnv exampleGet = ''http://x.example/a''"
    by (simp add: requestHash_def hashRequestURL_def example_defs)
  have mem1: "map_of (mcache (init exampleServer)) (requestHash exampleEnv exampleGet) = None"
    by (simp add: init_def example_defs)
  have mem2: "map_of (mcache (init exampleServer)) (requestHash exampleFailingEnv exampleGet) = None"
    by (simp add: init_def example_defs)
  have loc1: "localLoadFails exampleEnv (requestHash exampleEnv exampleGet) \<or>
              disk exampleServer (requestHash exampleEnv exampleGet) = None"
    by (simp add: example_defs)
  have loc2: "localLoadFails exampleFailingEnv (requestHash exampleFailingEnv exampleGet) \<or>
              disk exampleServer (requestHash exampleFailingEnv exampleGet) = None"
    by (simp add: example_defs)
  have rem1: "remoteLoadFails exampleEnv (requestHash exampleEnv exampleGet) \<or>
              bucket exampleServer (requestHash exampleEnv exampleGet) = None"
    by (simp add: example_defs)
  have rem2: "remoteLoadFails exampleFailingEnv (requestHash exampleFailingEnv exampleGet) \<or>
              bucket exampleServer (requestHash exampleFailingEnv exampleGet) = None"
    by (simp add: example_defs)
  have rw1: "rewriteRequest exampleEnv \<lparr>In = exampleGet, Out = exampleGet\<rparr>
               = Inr \<lparr>In = exampleGet, Out = exampleOut\<rparr>"
    by (simp add: rewriteRequest_def url_ParseRequestURI_def isCTLByte_def example_defs)
  have rw2: "rewriteRequest exampleFailingEnv \<lparr>In = exampleGet, Out = exampleGet\<rparr>
               = Inr \<lparr>In = exampleGet, Out = exampleOut\<rparr>"
    by (simp add: rewriteRequest_def url_ParseRequestURI_def isCTLByte_def example_defs)
  have or1: "roundTrip exampleEnv (Out \<lparr>In = exampleGet, Out = exampleOut\<rparr>) = Some exampleResponse"
    by (simp add: example_defs)
  have or2: "roundTrip exampleFailingEnv (Out \<lparr>In = exampleGet, Out = exampleOut\<rparr>)
               = Some exampleResponse"
    by (simp add: example_defs)
  have dur: "canCacheResponse exampleResponse"
    by (simp add: canCacheResponse_def StatusOK_def example_defs parse_defs header_defs)
  note a = ServeHTTP_durable_store [OF host cc mem1 loc1 rem1 rw1 or1 dur,
             where w = newResponseWriter]
  note b = ServeHTTP_durable_store [OF host cc mem2 loc2 rem2 rw2 or2 dur,
             where w = newResponseWriter]
  have fails: "localStoreFails exampleFailingEnv ''http://x.example/a''"
    "\<not> localStoreFails exampleEnv ''http://x.example/a''"
    by (simp_all add: example_defs)
  have srv: "rspSave exampleServer = 0" "rspSaveBytes exampleServer = 0"
    "rspSaveError exampleServer = 0" "tasks (init exampleServer) = []"
    "Body exampleResponse = ''hello''"
    by (simp_all add: example_defs init_def)
  show ?thesis
    using a b
    by (simp add: result_defs h1 h2 fails srv newResponseWriter_def cacheStoreS3_def
        split: prod.splits)
qed

subsection \<open>The X-Cache header\<close>

text \<open>
  Claim C2 does not hold of the code.  The request \<open>GET http://x.example/a\<close> with
  \<open>Cache-Control: no-store\<close> goes to a target; the origin answers 200 with no
  \<open>X-Cache\<close> header.  \<open>ServeHTTP\<close> installs the response hook only when the request
  can be cached, so nothing sets \<open>X-Cache\<close> on this path: the client receives the
  response of the origin with no \<open>X-Cache\<close> header at all.
\<close>

theorem ServeHTTP_no_store_get_without_XCache:
  "Method exampleNoStore = ''GET'' \<and>
   hostMatchesTarget (Host exampleNoStore) (Targets exampleServer) \<and>
   Header_Get (reqHeader exampleNoStore) ''Cache-Control'' = ''no-store'' \<and>
   roundTrip exampleEnv exampleOut = Some exampleResponse \<and>
   rspHeader exampleResponse ''X-Cache'' = None \<and>
   outcomeOf (ServeHTTP exampleEnv exampleServer newResponseWriter exampleNoStore) = Returned \<and>
   wStatus (responseOf (ServeHTTP exampleEnv exampleServer newResponseWriter exampleNoStore))
     = Some 200 \<and>
   wBody (responseOf (ServeHTTP exampleEnv exampleServer newResponseWriter exampleNoStore))
     = ''hello'' \<and>
   wHeader (responseOf (ServeHTTP exampleEnv exampleServer newResponseWriter exampleNoStore))
     ''X-Cache'' = None"
proof -
  have host: "hostMatchesTarget (Host exampleNoStore) (Targets exampleServer)"
    by (simp add: hostMatchesTarget_def example_defs)
  have cc: "\<not> canCacheRequest exampleNoStore"
    by (simp add: canCacheRequest_def example_defs parse_defs header_defs)
  have rw: "rewriteRequest exampleEnv \<lparr>In = exampleNoStore, Out = exampleNoStore\<rparr>
              = Inr \<lparr>In = exampleNoStore,
                     Out = exampleOut\<lparr>reqHeader := reqHeader exampleNoStore\<rparr>\<rparr>"
    by (simp add: rewriteRequest_def url_ParseRequestURI_def isCTLByte_def example_defs)
  have serve: "ServeHTTP exampleEnv exampleServer newResponseWriter exampleNoStore =
      forward exampleEnv
        (vlogf ((init exampleServer)\<lparr>reqReceived := reqReceived exampleServer + 1\<rparr>)
           ''rp B U:%q H:%s C:%v''
           [S (URL_String exampleEnv (reqURL exampleNoStore)),
            S (requestHash exampleEnv exampleNoStore), B False])
        newResponseWriter exampleNoStore (requestHash exampleEnv exampleNoStore) False"
    using cc by (simp add: ServeHTTP_accept [OF host])
  show ?thesis
    unfolding serve forward_uncacheable rw
    by (simp add: hostMatchesTarget_def result_defs example_defs Let_def WriteHeader_def
        Write_def newResponseWriter_def addValues_apply Header_Get_def)
qed

text \<open>
  The paths of a request that can be cached do set the header: a hit in a tier
  or an answer of the origin gives exactly one \<open>X-Cache\<close> value, and it is one of
  the disposition tokens.
\<close>

lemma setXCacheInfo_XCache: "setXCacheInfo h d hash ''X-Cache'' = Some [d]"
  by (simp add: setXCacheInfo_def Header_Set_def Let_def)

lemma addValues_XCache:
  "dst ''X-Cache'' = None \<Longrightarrow> addValues dst (setXCacheInfo h d hash) ''X-Cache'' = Some [d]"
  by (simp add: addValues_apply setXCacheInfo_XCache)

lemma wHeader_Write [simp]: "wHeader (Write w b) = wHeader w"
  by (simp add: Write_def WriteHeader_def Let_def split: option.splits)

lemma wHeader_WriteHeader [simp]: "wHeader (WriteHeader w c) = wHeader w"
  by (simp add: WriteHeader_def split: option.splits)

lemma lookupCache_XCache:
  assumes "lookupCache env s w h = (Some w', s')" and "wHeader w ''X-Cache'' = None"
  shows "\<exists>d \<in> {''hit, memory'', ''hit, local'', ''hit, remote''}. wHeader w' ''X-Cache'' = Some [d]"
  using assms
  by (auto simp: lookupCache_def writeCachedResponse_def addValues_XCache Let_def
      split: prod.splits sum.splits)

lemma modifyResponse_XCache:
  assumes "modifyResponse h s rsp = (rsp', upd, s')"
  shows "\<exists>d \<in> {''fetch, uncached'', ''fetch, cached, volatile'', ''fetch, cached''}.
           \<exists>i. rspHeader rsp' = setXCacheInfo (rspHeader rsp) d i"
  using assms
  by (auto simp: modifyResponse_def Let_def split: prod.splits if_splits)

lemma forward_XCache:
  assumes "forward env s w r h True = (out, w', s')"
      and "rewriteRequest env \<lparr>In = r, Out = r\<rparr> = Inr pr"
      and "roundTrip env (Out pr) = Some rsp"
      and "wHeader w ''X-Cache'' = None"
  shows "\<exists>d \<in> {''fetch, uncached'', ''fetch, cached, volatile'', ''fetch, cached''}.
           wHeader w' ''X-Cache'' = Some [d]"
proof -
  obtain rsp' upd s1 where m:
    "modifyResponse h (s\<lparr>reqForward := reqForward s + 1,
                         calls := calls s @ [RoundTrip (Out pr)]\<rparr>) rsp = (rsp', upd, s1)"
    by (cases "modifyResponse h (s\<lparr>reqForward := reqForward s + 1,
                         calls := calls s @ [RoundTrip (Out pr)]\<rparr>) rsp") auto
  from modifyResponse_XCache [OF m] obtain d i where
    d: "d \<in> {''fetch, uncached'', ''fetch, cached, volatile'', ''fetch, cached''}"
    and h: "rspHeader rsp' = setXCacheInfo (rspHeader rsp) d i"
    by blast
  have "w' = Write (WriteHeader (w\<lparr>wHeader := addValues (wHeader w) (rspHeader rsp')\<rparr>)
                      (StatusCode rsp')) (Body rsp')"
    using assms(1) m
    by (simp add: forward_def ReverseProxy_ServeHTTP_def assms(2) assms(3) Let_def)
  then have "wHeader w' ''X-Cache'' = Some [d]"
    using assms(4) by (simp add: h addValues_XCache)
  with d show ?thesis by blast
qed

lemma ServeHTTP_cacheable_XCache:
  assumes "hostMatchesTarget (Host r) (Targets s)"
      and "canCacheRequest r"
      and "rewriteRequest env \<lparr>In = r, Out = r\<rparr> = Inr pr"
      and "roundTrip env (Out pr) = Some rsp"
      and "wHeader w ''X-Cache'' = None"
  shows "\<exists>d \<in> dispositions.
           wHeader (responseOf (ServeHTTP env s w r)) ''X-Cache'' = Some [d]"
proof -
  let ?s3 = "vlogf ((init s)\<lparr>reqReceived := reqReceived s + 1\<rparr>) ''rp B U:%q H:%s C:%v''
               [S (URL_String env (reqURL r)), S (requestHash env r), B True]"
  obtain res s4 where l: "lookupCache env ?s3 w (requestHash env r) = (res, s4)"
    by (cases "lookupCache env ?s3 w (requestHash env r)") auto
  show ?thesis
  proof (cases res)
    case None
    obtain out w' s' where f: "forward env s4 w r (requestHash env r) True = (out, w', s')"
      by (cases "forward env s4 w r (requestHash env r) True") auto
    from forward_XCache [OF f assms(3) assms(4) assms(5)]
    show ?thesis
      using assms(1) assms(2) l None f
      by (auto simp: ServeHTTP_accept responseOf_def dispositions_def)
  next
    case (Some w1)
    from lookupCache_XCache [OF l [unfolded Some] assms(5)]
    show ?thesis
      using assms(1) assms(2) l Some
      by (auto simp: ServeHTTP_accept responseOf_def dispositions_def)
  qed
qed

subsection \<open>The panic of the rewriter leaves the handler\<close>

text \<open>
  A request to a target that cannot be cached and whose request URI does not
  parse makes \<open>ServeHTTP\<close> panic inside the reverse proxy.
\<close>

lemma ServeHTTP_panics:
  assumes "hostMatchesTarget (Host r) (Targets s)"
      and "\<not> canCacheRequest r"
      and "url_ParseRequestURI env (RequestURI r) = None"
  shows "outcomeOf (ServeHTTP env s w r) = Panicked NilPointerDereference"
  using assms
  by (simp add: ServeHTTP_accept forward_uncacheable rewriteRequest_def outcomeOf_def)

subsection \<open>Pushes to the bucket\<close>

text \<open>
  Whatever the request, \<open>ServeHTTP\<close> does not write the bucket, and it hands at
  most one task to the pool: the push of the hash of the request, after the
  local store of that hash has succeeded and the entry is on disk.  The bucket
  is written only by a task that runs.
\<close>

lemma cacheLoadMemory_frame:
  "cacheLoadMemory s h = (res, s') \<Longrightarrow>
   tasks s' = tasks s \<and> bucket s' = bucket s \<and> disk s' = disk s"
  by (auto simp: cacheLoadMemory_def Let_def split: option.splits)

lemma cacheLoadLocal_frame:
  "cacheLoadLocal env s h = (res, s') \<Longrightarrow>
   tasks s' = tasks s \<and> bucket s' = bucket s \<and> disk s' = disk s"
  by (auto simp: cacheLoadLocal_def Let_def split: option.splits if_splits)

lemma cacheLoadS3_frame:
  "cacheLoadS3 env s h = (res, s') \<Longrightarrow>
   tasks s' = tasks s \<and> bucket s' = bucket s \<and> disk s' = disk s"
  by (auto simp: cacheLoadS3_def Let_def split: option.splits if_splits)

lemma cacheStoreLocal_frame:
  "cacheStoreLocal env s h hdr body = (res, s') \<Longrightarrow>
   tasks s' = tasks s \<and> bucket s' = bucket s"
  by (auto simp: cacheStoreLocal_def Let_def split: if_splits)

lemma lookupCache_frame:
  assumes "lookupCache env s w h = (res, s')"
  shows "tasks s' = tasks s \<and> bucket s' = bucket s"
proof -
  obtain r1 s1 where a: "cacheLoadMemory s h = (r1, s1)"
    by (cases "cacheLoadMemory s h") auto
  note f1 = cacheLoadMemory_frame [OF a]
  show ?thesis
  proof (cases r1)
    case (Inr x)
    then show ?thesis using assms a f1
      by (cases x) (auto simp: lookupCache_def vlogf_alt)
  next
    case (Inl e1)
    obtain r2 s2 where b: "cacheLoadLocal env s1 h = (r2, s2)"
      by (cases "cacheLoadLocal env s1 h") auto
    note f2 = cacheLoadLocal_frame [OF b]
    show ?thesis
    proof (cases r2)
      case (Inr x)
      then show ?thesis using assms a Inl b f1 f2
        by (cases x) (auto simp: lookupCache_def vlogf_alt)
    next
      case i2: (Inl e2)
      obtain r3 s3 where c: "cacheLoadS3 env (s2\<lparr>reqLocalMiss := reqLocalMiss s2 + 1\<rparr>) h = (r3, s3)"
        by (cases "cacheLoadS3 env (s2\<lparr>reqLocalMiss := reqLocalMiss s2 + 1\<rparr>) h") auto
      note f3 = cacheLoadS3_frame [OF c]
      show ?thesis
      proof (cases r3)
        case i3: (Inl e3)
        then show ?thesis using assms a Inl b i2 c f1 f2 f3
          by (auto simp: lookupCache_def vlogf_alt Let_def)
      next
        case (Inr x)
        obtain data hdr where x: "x = (data, hdr)" by (cases x) auto
        obtain r4 s4 where d:
          "cacheStoreLocal env (s3\<lparr>reqFaultHit := reqFaultHit s3 + 1\<rparr>) h hdr data = (r4, s4)"
          by (cases "cacheStoreLocal env (s3\<lparr>reqFaultHit := reqFaultHit s3 + 1\<rparr>) h hdr data") auto
        note f4 = cacheStoreLocal_frame [OF d]
        show ?thesis using assms a Inl b i2 c Inr x d f1 f2 f3 f4
          by (cases r4) (auto simp: lookupCache_def vlogf_alt logf_alt Let_def)
      qed
    qed
  qed
qed

lemma modifyResponse_frame:
  assumes "modifyResponse h s rsp = (rsp', upd, s')"
  shows "tasks s' = tasks s \<and> bucket s' = bucket s \<and> disk s' = disk s"
  using assms
  by (auto simp: modifyResponse_def Let_def vlogf_alt split: prod.splits if_splits)

lemma updateCache_tasks:
  "bucket (updateCache env s h upd hdr body) = bucket s \<and>
   (tasks (updateCache env s h upd hdr body) = tasks s \<or>
    \<not> localStoreFails env h \<and>
    tasks (updateCache env s h upd hdr body) = tasks s @ [cacheStoreS3 h hdr body] \<and>
    disk (updateCache env s h upd hdr body) h = Some (savedHeaders env hdr, body))"
  by (cases upd)
     (auto simp: updateCache_def cacheStoreMemory_def cacheStoreLocal_def start_def Let_def
        vlogf_alt logf_alt)

lemma forward_tasks:
  assumes "forward env s w r h c = (out, w', s')"
  shows "bucket s' = bucket s \<and>
         (tasks s' = tasks s \<or>
          \<not> localStoreFails env h \<and>
          (\<exists>hdr body. tasks s' = tasks s @ [cacheStoreS3 h hdr body] \<and>
                      disk s' h = Some (savedHeaders env hdr, body)))"
proof (cases c)
  case False
  then show ?thesis using assms
    by (auto simp: forward_uncacheable split: sum.splits)
next
  case True
  show ?thesis
  proof (cases "rewriteRequest env \<lparr>In = r, Out = r\<rparr>")
    case (Inl p)
    then show ?thesis using assms
      by (auto simp: forward_def ReverseProxy_ServeHTTP_def Let_def)
  next
    case (Inr pr)
    show ?thesis
    proof (cases "roundTrip env (Out pr)")
      case None
      then show ?thesis using assms Inr
        by (auto simp: forward_def ReverseProxy_ServeHTTP_def Let_def updateCache_def)
    next
      case (Some rsp)
      let ?s1 = "s\<lparr>reqForward := reqForward s + 1, calls := calls s @ [RoundTrip (Out pr)]\<rparr>"
      obtain rsp' upd s2 where m: "modifyResponse h ?s1 rsp = (rsp', upd, s2)"
        by (cases "modifyResponse h ?s1 rsp") auto
      have fr: "tasks s2 = tasks s \<and> bucket s2 = bucket s"
        using modifyResponse_frame [OF m] by simp
      have s': "s' = updateCache env s2 h upd (rspHeader rsp') (Body rsp')"
        using assms True Inr Some m
        by (simp add: forward_def ReverseProxy_ServeHTTP_def Let_def)
      show ?thesis
        unfolding s' using updateCache_tasks [of env s2 h upd "rspHeader rsp'" "Body rsp'"] fr
        by auto
    qed
  qed
qed

lemma ServeHTTP_push_after_local_store:
  "bucket (serverOf (ServeHTTP env s w r)) = bucket s \<and>
   (tasks (serverOf (ServeHTTP env s w r)) = tasks (init s) \<or>
    \<not> localStoreFails env (requestHash env r) \<and>
    (\<exists>hdr body.
       tasks (serverOf (ServeHTTP env s w r)) =
         tasks (init s) @ [cacheStoreS3 (requestHash env r) hdr body] \<and>
       disk (serverOf (ServeHTTP env s w r)) (requestHash env r) =
         Some (savedHeaders env hdr, body)))"
proof (cases "hostMatchesTarget (Host r) (Targets s)")
  case False
  then show ?thesis by (simp add: ServeHTTP_reject serverOf_def logf_alt)
next
  case True
  let ?h = "requestHash env r"
  let ?s3 = "vlogf ((init s)\<lparr>reqReceived := reqReceived s + 1\<rparr>) ''rp B U:%q H:%s C:%v''
               [S (URL_String env (reqURL r)), S ?h, B (canCacheRequest r)]"
  obtain res s4 where l:
    "(if canCacheRequest r then lookupCache env ?s3 w ?h else (None, ?s3)) = (res, s4)"
    by (cases "(if canCacheRequest r then lookupCache env ?s3 w ?h else (None, ?s3))") auto
  have fr: "tasks s4 = tasks (init s) \<and> bucket s4 = bucket s"
    using l lookupCache_frame [of env ?s3 w ?h res s4]
    by (cases "canCacheRequest r") (auto simp: vlogf_alt)
  show ?thesis
  proof (cases res)
    case None
    obtain out w' s' where f: "forward env s4 w r ?h (canCacheRequest r) = (out, w', s')"
      by (cases "forward env s4 w r ?h (canCacheRequest r)") auto
    have "ServeHTTP env s w r = (out, w', s')"
      using True l None f by (simp add: ServeHTTP_accept)
    then show ?thesis
      using forward_tasks [OF f] fr by (auto simp: serverOf_def)
  next
    case (Some w1)
    have "ServeHTTP env s w r = (Returned, w1, s4)"
      using True l Some by (simp add: ServeHTTP_accept)
    then show ?thesis using fr by (simp add: serverOf_def)
  qed
qed

lemma runTask_bucket:
  "bucket (runTask env s t) h \<noteq> bucket s h \<Longrightarrow> h = pHash t \<and> \<not> remoteStoreFails env (pHash t)"
  by (auto simp: runTask_def split: if_splits)

end
